theory Spec2Isabelle
  imports Complex_Main "HOL-Library.AList"
begin

section \<open>Data model (server/index.ts, server/geolocation.ts)\<close>

text \<open>
  The type declarations of the repository (\<open>src/types\<close>) are not part of the sources at
  hand; the records below list the fields that the server code itself builds and reads:
  \<open>GeoLocation\<close> as built by \<open>getGeolocation\<close>, \<open>ServerInfo\<close> as built by
  \<open>buildServerInfo\<close>, \<open>VisitorInfo\<close> as built by the \<open>open\<close> handler.

  A JavaScript number that can travel in a visitor record is a finite double (JSON has no
  NaN and no infinity, and \<open>getGeolocation\<close> replaces a missing coordinate by 0), hence a
  rational number; \<open>lat\<close> and \<open>lng\<close> are of type \<open>rat\<close>.
\<close>

record GeoLocation =
  lat :: rat
  lng :: rat
  city :: string
  region :: string
  country :: string
  countryCode :: string
  timezone :: string
  isp :: string
  org :: string
  as_name :: string

record ServerInfo =
  ip :: string
  geo :: "GeoLocation option"
  userAgent :: string
  acceptLanguage :: string
  referer :: string
  headers :: "(string \<times> string) list"

text \<open>
  \<open>UserProfile\<close>: the two fields that \<open>parseAIResponse\<close> requires, the \<open>aiGenerated\<close>
  mark that \<open>generateAIProfile\<close> sets, and the remaining inferred fields as name/value
  pairs.
\<close>

record UserProfile =
  likelyDeveloper :: bool
  developerScore :: rat
  aiGenerated :: bool
  inferences :: "(string \<times> string) list"

text \<open>
  \<open>ClientInfo\<close>: the device facts sent by the browser. The server reads
  \<open>fingerprintId\<close> and \<open>crossBrowserId\<close> (both may be missing: the server tests them
  for truthiness and defaults them to \<open>'unknown'\<close>); the browser adds \<open>userProfile\<close>
  once the enrichment has answered; every other fact is a name/value pair.
\<close>

record ClientInfo =
  fingerprintId :: "string option"
  crossBrowserId :: "string option"
  userProfile :: "UserProfile option"
  facts :: "(string \<times> string) list"

text \<open>The field \<open>id\<close> of a visitor record is \<open>id_v\<close> here.\<close>

record VisitorInfo =
  id_v :: string
  server :: ServerInfo
  client :: "ClientInfo option"
  connectedAt :: int

section \<open>Redaction (server/index.ts)\<close>

text \<open>The bullet U+2022 of the masks, as its three UTF-8 bytes.\<close>

definition bullet :: string where
  "bullet = [CHR 0xE2, CHR 0x80, CHR 0xA2]"

definition IP_MASK :: string where
  "IP_MASK = concat [bullet, bullet, bullet, ''.'', bullet, bullet, bullet, ''.'',
                     bullet, bullet, bullet, ''.'', bullet, bullet, bullet]"

definition FIELD_MASK :: string where
  "FIELD_MASK = concat (replicate 6 bullet)"

text \<open>
  \<open>Math.round\<close> on a finite number: the integer nearest to \<open>x\<close>, a tie going up,
  that is the floor of \<open>x + 1/2\<close>.
\<close>

definition Math_round :: "rat \<Rightarrow> rat" where
  "Math_round x = of_int \<lfloor>x + 1 / 2\<rfloor>"

definition redactVisitorInfo :: "VisitorInfo \<Rightarrow> VisitorInfo" where
  "redactVisitorInfo visitor =
     visitor\<lparr>server := (server visitor)
       \<lparr>ip := IP_MASK,
        geo := (case geo (server visitor) of
                  Some g \<Rightarrow> Some (g\<lparr>city := FIELD_MASK,
                                     lat := Math_round (lat g),
                                     lng := Math_round (lng g),
                                     isp := FIELD_MASK,
                                     org := FIELD_MASK\<rparr>)
                | None \<Rightarrow> None)\<rparr>\<rparr>"

definition redactVisitorsExcept :: "VisitorInfo list \<Rightarrow> string \<Rightarrow> VisitorInfo list" where
  "redactVisitorsExcept allVisitors currentId =
     map (\<lambda>v. if id_v v = currentId then v else redactVisitorInfo v) allVisitors"

text \<open>
  The redaction layer seen from one viewer: what \<open>redactVisitorsExcept\<close> does to one
  record of the list.
\<close>

definition redact :: "VisitorInfo \<Rightarrow> string \<Rightarrow> VisitorInfo" where
  "redact r viewerId = hd (redactVisitorsExcept [r] viewerId)"

section \<open>Shared visitor state (server/shared-visitors.ts)\<close>

text \<open>
  The Redis server as this module uses it: the hash at \<open>VISITORS_KEY\<close> (field: visitor
  id, in insertion order), the time to live of that key in seconds (\<open>None\<close>: no expiry
  set) and the messages published on \<open>VISITOR_CHANNEL\<close>, oldest first. \<open>up\<close> tells
  whether the server answers: a command sent while it is down rejects (the \<open>await\<close>
  throws). \<open>JSON.stringify\<close> and \<open>JSON.parse\<close> are not modelled: the hash and the
  channel hold the records themselves.
\<close>

datatype exn = TypeError | SyntaxError | NetworkError | Error string

datatype VisitorEventType = joined | left | updated

record VisitorEvent =
  event_type :: VisitorEventType
  visitor :: VisitorInfo
  instanceId :: string

record Redis =
  up :: bool
  visitors_hash :: "(string \<times> VisitorInfo) list"
  visitors_ttl :: "nat option"
  channel :: "VisitorEvent list"

definition VISITOR_TTL :: nat where
  "VISITOR_TTL = 300"

text \<open>
  Redis commands. A key holding an empty hash does not exist, and a key that does not
  exist has no time to live; \<open>EXPIRE\<close> on a missing key does nothing.
\<close>

definition hSet :: "string \<Rightarrow> VisitorInfo \<Rightarrow> Redis \<Rightarrow> exn + Redis" where
  "hSet field v r =
     (if up r then Inr (r\<lparr>visitors_hash := AList.update field v (visitors_hash r)\<rparr>)
      else Inl NetworkError)"

definition expire :: "nat \<Rightarrow> Redis \<Rightarrow> exn + Redis" where
  "expire seconds r =
     (if up r then Inr (if visitors_hash r = [] then r else r\<lparr>visitors_ttl := Some seconds\<rparr>)
      else Inl NetworkError)"

definition hDel :: "string \<Rightarrow> Redis \<Rightarrow> exn + Redis" where
  "hDel field r =
     (if up r then
        (let h = AList.delete field (visitors_hash r)
         in Inr (r\<lparr>visitors_hash := h,
                   visitors_ttl := (if h = [] then None else visitors_ttl r)\<rparr>))
      else Inl NetworkError)"

definition publish :: "VisitorEvent \<Rightarrow> Redis \<Rightarrow> exn + Redis" where
  "publish event r =
     (if up r then Inr (r\<lparr>channel := channel r @ [event]\<rparr>) else Inl NetworkError)"

definition hGetAll :: "Redis \<Rightarrow> exn + (string \<times> VisitorInfo) list" where
  "hGetAll r = (if up r then Inr (visitors_hash r) else Inl NetworkError)"

text \<open>
  The module's own state: whether \<open>pubClient\<close> is set, the flag \<open>isConnected\<close>, the
  constant \<open>INSTANCE_ID\<close>, and the Redis server behind \<open>pubClient\<close>.
\<close>

record SharedVisitors =
  pubClient :: bool
  isConnected :: bool
  INSTANCE_ID :: string
  redis :: Redis

text \<open>
  The three publishers. Each returns at once unless the client is set and connected; an
  exception of a Redis command ends the \<open>try\<close> block, and what was written before it
  stays.
\<close>

definition publishVisitorJoined :: "VisitorInfo \<Rightarrow> SharedVisitors \<Rightarrow> SharedVisitors" where
  "publishVisitorJoined v sv =
     (if \<not> pubClient sv \<or> \<not> isConnected sv then sv
      else case hSet (id_v v) v (redis sv) of
        Inl e \<Rightarrow> sv
      | Inr r1 \<Rightarrow>
          (case expire VISITOR_TTL r1 of
             Inl e \<Rightarrow> sv\<lparr>redis := r1\<rparr>
           | Inr r2 \<Rightarrow>
               (case publish \<lparr>event_type = joined, visitor = v,
                                instanceId = INSTANCE_ID sv\<rparr> r2 of
                  Inl e \<Rightarrow> sv\<lparr>redis := r2\<rparr>
                | Inr r3 \<Rightarrow> sv\<lparr>redis := r3\<rparr>)))"

definition publishVisitorLeft :: "VisitorInfo \<Rightarrow> SharedVisitors \<Rightarrow> SharedVisitors" where
  "publishVisitorLeft v sv =
     (if \<not> pubClient sv \<or> \<not> isConnected sv then sv
      else case hDel (id_v v) (redis sv) of
        Inl e \<Rightarrow> sv
      | Inr r1 \<Rightarrow>
          (case publish \<lparr>event_type = left, visitor = v,
                           instanceId = INSTANCE_ID sv\<rparr> r1 of
             Inl e \<Rightarrow> sv\<lparr>redis := r1\<rparr>
           | Inr r2 \<Rightarrow> sv\<lparr>redis := r2\<rparr>))"

definition publishVisitorUpdated :: "VisitorInfo \<Rightarrow> SharedVisitors \<Rightarrow> SharedVisitors" where
  "publishVisitorUpdated v sv =
     (if \<not> pubClient sv \<or> \<not> isConnected sv then sv
      else case hSet (id_v v) v (redis sv) of
        Inl e \<Rightarrow> sv
      | Inr r1 \<Rightarrow>
          (case publish \<lparr>event_type = updated, visitor = v,
                           instanceId = INSTANCE_ID sv\<rparr> r1 of
             Inl e \<Rightarrow> sv\<lparr>redis := r1\<rparr>
           | Inr r2 \<Rightarrow> sv\<lparr>redis := r2\<rparr>))"

definition getAllSharedVisitors :: "SharedVisitors \<Rightarrow> VisitorInfo list" where
  "getAllSharedVisitors sv =
     (if \<not> pubClient sv \<or> \<not> isConnected sv then []
      else case hGetAll (redis sv) of Inl e \<Rightarrow> [] | Inr h \<Rightarrow> map snd h)"

definition isSharedVisitorsConnected :: "SharedVisitors \<Rightarrow> bool" where
  "isSharedVisitorsConnected sv = isConnected sv"

text \<open>
  The subscription. A registered callback acts on the state \<open>'s\<close> of its owner and may
  throw; \<open>forEach\<close> calls the callbacks in order and stops at the first one that throws.
  Beside the state, it returns how many callbacks were called and the exception, if any.
\<close>

type_synonym 's EventCallback = "VisitorEvent \<Rightarrow> 's \<Rightarrow> 's \<times> exn option"

fun forEach :: "'s EventCallback list \<Rightarrow> VisitorEvent \<Rightarrow> 's \<Rightarrow> 's \<times> nat \<times> exn option" where
  "forEach [] event s = (s, 0, None)"
| "forEach (cb # cbs) event s =
     (case cb event s of
        (s', Some e) \<Rightarrow> (s', 1, Some e)
      | (s', None) \<Rightarrow> (case forEach cbs event s' of (s'', n, r) \<Rightarrow> (s'', Suc n, r)))"

text \<open>
  The handler that \<open>initSharedVisitors\<close> subscribes to the channel, applied to the outcome
  of \<open>JSON.parse(message)\<close>. It returns the state and the number of callbacks called;
  every exception ends in its \<open>catch\<close>.
\<close>

definition subscription_handler ::
  "string \<Rightarrow> 's EventCallback list \<Rightarrow> exn + VisitorEvent \<Rightarrow> 's \<Rightarrow> 's \<times> nat" where
  "subscription_handler self eventCallbacks parsed s =
     (case parsed of
        Inl e \<Rightarrow> (s, 0)
      | Inr event \<Rightarrow>
          if instanceId event \<noteq> self
          then (case forEach eventCallbacks event s of (s', n, r) \<Rightarrow> (s', n))
          else (s, 0))"

section \<open>Session controller (server/index.ts)\<close>

datatype ReadyState = CONNECTING | OPEN | CLOSING | CLOSED

text \<open>A socket: its ready state and the \<open>visitorId\<close> that \<open>open\<close> attaches to it.\<close>

record WebSocket =
  readyState :: ReadyState
  visitorId :: "string option"

text \<open>Messages to a browser, by their \<open>type\<close> (capitalised), with the fields of their payload.\<close>

datatype WSMessage =
    Welcome VisitorInfo "VisitorInfo list"
  | Visitor_joined VisitorInfo
  | Visitor_updated VisitorInfo
  | Visitor_left VisitorInfo

text \<open>
  What a browser sends, after \<open>JSON.parse\<close>: text that does not parse, or an envelope
  with its \<open>type\<close> and its payload. The payload may be missing, and so may its
  \<open>clientInfo\<close>: the handler checks neither.
\<close>

datatype Payload = NoPayload | ClientInfoPayload "ClientInfo option"

datatype Incoming = Unparseable | Envelope string Payload

text \<open>
  The three maps of the module are JavaScript \<open>Map\<close>s: association lists in insertion
  order, \<open>set\<close> being \<open>AList.update\<close> (in place for a known key, at the end for a
  new one), \<open>delete\<close> being \<open>AList.delete\<close>, \<open>get\<close> being \<open>map_of\<close>. \<open>sent\<close>
  is the log of \<open>ws.send\<close>: the id of the connection and the message, oldest first;
  \<open>tracked\<close> is the log of the calls of \<open>trackUniqueVisitor\<close>.
\<close>

record ServerState =
  localVisitors :: "(string \<times> VisitorInfo) list"
  allVisitors :: "(string \<times> VisitorInfo) list"
  connections :: "(string \<times> WebSocket) list"
  shared :: SharedVisitors
  sent :: "(string \<times> WSMessage) list"
  tracked :: "(string \<times> string) list"

definition broadcast :: "WSMessage \<Rightarrow> string option \<Rightarrow> ServerState \<Rightarrow> ServerState" where
  "broadcast message excludeId s =
     s\<lparr>sent := sent s @
          map (\<lambda>(i, ws). (i, message))
            (filter (\<lambda>(i, ws). Some i \<noteq> excludeId \<and> readyState ws = OPEN)
               (connections s))\<rparr>"

text \<open>
  The callback that the module registers with \<open>onVisitorEvent\<close> for the events of the
  other instances.
\<close>

definition remote_event :: "VisitorEvent \<Rightarrow> ServerState \<Rightarrow> ServerState" where
  "remote_event event s =
     (case event_type event of
        joined \<Rightarrow>
          broadcast (Visitor_joined (redactVisitorInfo (visitor event))) None
            (s\<lparr>allVisitors := AList.update (id_v (visitor event)) (visitor event)
                                 (allVisitors s)\<rparr>)
      | left \<Rightarrow>
          broadcast (Visitor_left (redactVisitorInfo (visitor event))) None
            (s\<lparr>allVisitors := AList.delete (id_v (visitor event)) (allVisitors s)\<rparr>)
      | updated \<Rightarrow>
          broadcast (Visitor_updated (redactVisitorInfo (visitor event))) None
            (s\<lparr>allVisitors := AList.update (id_v (visitor event)) (visitor event)
                                 (allVisitors s)\<rparr>))"

definition remote_event_callback :: "ServerState EventCallback" where
  "remote_event_callback event s = (remote_event event s, None)"

text \<open>
  \<open>websocket.open\<close>. The id (\<open>generateId\<close>), the server-observed part
  (\<open>buildServerInfo\<close>) and the time (\<open>Date.now\<close>) come from outside. The handler
  returns the socket, now carrying its \<open>visitorId\<close>, and the state.
\<close>

definition ws_open ::
  "WebSocket \<Rightarrow> string \<Rightarrow> ServerInfo \<Rightarrow> int \<Rightarrow> ServerState \<Rightarrow> WebSocket \<times> ServerState" where
  "ws_open ws i serverInfo now s =
     (let v = \<lparr>id_v = i, server = serverInfo, client = None, connectedAt = now\<rparr>;
          s1 = s\<lparr>localVisitors := AList.update i v (localVisitors s),
                 allVisitors := AList.update i v (allVisitors s),
                 connections := AList.update i ws (connections s)\<rparr>;
          s2 = s1\<lparr>shared := publishVisitorJoined v (shared s1)\<rparr>;
          ws' = ws\<lparr>visitorId := Some i\<rparr>;
          s3 = s2\<lparr>connections := AList.update i ws' (connections s2)\<rparr>;
          allVisitorsList =
            (if isSharedVisitorsConnected (shared s3) then getAllSharedVisitors (shared s3)
             else map snd (allVisitors s3));
          s4 = s3\<lparr>sent := sent s3 @ [(i, Welcome v (redactVisitorsExcept allVisitorsList i))]\<rparr>
      in (ws', broadcast (Visitor_joined (redactVisitorInfo v)) (Some i) s4))"

text \<open>A string is truthy when it is present and not empty.\<close>

definition truthy :: "string option \<Rightarrow> bool" where
  "truthy x = (case x of None \<Rightarrow> False | Some t \<Rightarrow> t \<noteq> [])"

text \<open>
  \<open>websocket.message\<close>. Every exception ends in the handler's \<open>catch\<close>: a text that does
  not parse changes nothing; a missing payload throws before the record is touched; a
  missing \<open>clientInfo\<close> throws at \<open>payload.clientInfo.fingerprintId\<close>, after the record
  was stored and published.
\<close>

definition ws_message :: "WebSocket \<Rightarrow> Incoming \<Rightarrow> ServerState \<Rightarrow> ServerState" where
  "ws_message ws message s =
     (case message of
        Unparseable \<Rightarrow> s
      | Envelope ty payload \<Rightarrow>
          if ty \<noteq> ''client_info'' then s
          else case visitorId ws of
            None \<Rightarrow> s
          | Some i \<Rightarrow>
              (case map_of (localVisitors s) i of
                 None \<Rightarrow> s
               | Some v0 \<Rightarrow>
                   (case payload of
                      NoPayload \<Rightarrow> s
                    | ClientInfoPayload clientInfo \<Rightarrow>
                        (let v = v0\<lparr>client := clientInfo\<rparr>;
                             s1 = s\<lparr>localVisitors := AList.update i v (localVisitors s),
                                    allVisitors := AList.update i v (allVisitors s)\<rparr>;
                             s2 = s1\<lparr>shared := publishVisitorUpdated v (shared s1)\<rparr>
                         in case clientInfo of
                              None \<Rightarrow> s2
                            | Some c \<Rightarrow>
                                (let s3 = (if truthy (fingerprintId c) \<and> truthy (crossBrowserId c)
                                           then s2\<lparr>tracked := tracked s2 @
                                                  [(the (fingerprintId c), the (crossBrowserId c))]\<rparr>
                                           else s2);
                                     s4 = (case map_of (connections s3) i of
                                             None \<Rightarrow> s3
                                           | Some currentWs \<Rightarrow>
                                               if readyState currentWs = OPEN
                                               then s3\<lparr>sent := sent s3 @ [(i, Visitor_updated v)]\<rparr>
                                               else s3)
                                 in broadcast (Visitor_updated (redactVisitorInfo v)) (Some i) s4)))))"

text \<open>\<open>websocket.close\<close>.\<close>

definition ws_close :: "WebSocket \<Rightarrow> ServerState \<Rightarrow> ServerState" where
  "ws_close ws s =
     (if truthy (visitorId ws) then
        (let i = the (visitorId ws);
             v = map_of (localVisitors s) i;
             s1 = s\<lparr>localVisitors := AList.delete i (localVisitors s),
                    allVisitors := AList.delete i (allVisitors s),
                    connections := AList.delete i (connections s)\<rparr>
         in case v of
              None \<Rightarrow> s1
            | Some v \<Rightarrow>
                broadcast (Visitor_left (redactVisitorInfo v)) None
                  (s1\<lparr>shared := publishVisitorLeft v (shared s1)\<rparr>))
      else s)"

text \<open>The keys of a map, and the consistency of the three registries.\<close>

definition keys :: "('k \<times> 'v) list \<Rightarrow> 'k set" where
  "keys m = fst ` set m"

definition registries_consistent :: "ServerState \<Rightarrow> bool" where
  "registries_consistent s =
     (keys (connections s) = keys (localVisitors s) \<and>
      keys (localVisitors s) \<subseteq> keys (allVisitors s))"

section \<open>Enrichment (server/ai-profiler.ts)\<close>

text \<open>
  A parsed JSON value. An object lists its members with distinct names, as
  \<open>JSON.parse\<close> builds it.
\<close>

datatype json =
    JNull
  | JBool bool
  | JNum rat
  | JStr string
  | JArr "json list"
  | JObj "(string \<times> json) list"

text \<open>
  \<open>GeoData\<close>, the optional second argument of \<open>generateAIProfile\<close>; its fields
  \<open>city\<close>, \<open>region\<close>, \<open>country\<close>, \<open>isp\<close>, \<open>timezone\<close> carry the prefix \<open>g_\<close> here.
\<close>

record GeoData =
  g_city :: "string option"
  g_region :: "string option"
  g_country :: "string option"
  g_isp :: "string option"
  g_timezone :: "string option"

text \<open>What \<open>fetch\<close> resolves to: the status, and what reading the body gives.\<close>

record Response =
  ok :: bool
  status :: nat
  text_body :: "exn + string"
  json_body :: "exn + json"

text \<open>
  What lies outside the module during one call of \<open>generateAIProfile\<close>:
  \<^item> the readings of \<open>Date.now\<close>: in \<open>getRedis\<close> at the read of the cache, in its
    \<open>catch\<close> there, in \<open>checkRateLimit\<close>, in \<open>getRedis\<close> at the write of the cache,
    and in its \<open>catch\<close> there;
  \<^item> whether \<open>redis.connect()\<close> succeeds when \<open>getRedis\<close> attempts it, and whether the
    command sent to the store then rejects;
  \<^item> \<open>JSON.parse\<close> on the text of the inference service, \<open>JSON.parse\<close> on a cache
    entry read as \<open>UserProfile | null\<close> (a falsy value is \<open>None\<close>), \<open>JSON.stringify\<close>
    on a profile, and the rendering of an exception by \<open>String\<close>;
  \<^item> \<open>buildPrompt\<close>, whose text goes to the inference service only, and the members of
    the profile that \<open>parseAIResponse\<close> copies beside the two it checks;
  \<^item> the inference service: what \<open>fetch\<close> gives for a prompt.
\<close>

record Outside =
  now_get :: int
  connects_at_get :: bool
  now_get_failed :: int
  get_rejects :: bool
  date_now :: int
  now_setEx :: int
  connects_at_setEx :: bool
  now_setEx_failed :: int
  setEx_rejects :: bool
  JSON_parse :: "string \<Rightarrow> exn + json"
  JSON_parse_cached :: "string \<Rightarrow> exn + UserProfile option"
  JSON_stringify :: "UserProfile \<Rightarrow> string"
  String_of :: "exn \<Rightarrow> string"
  buildPrompt :: "ClientInfo \<Rightarrow> GeoData option \<Rightarrow> exn + string"
  other_members :: "json \<Rightarrow> (string \<times> string) list"
  fetch :: "string \<Rightarrow> exn + Response"

text \<open>
  The state of the module: the constant \<open>GROK_API_KEY\<close>, the map \<open>userRateLimits\<close>,
  the connection to the cache store (\<open>redis_isOpen\<close>: the client \<open>redis\<close> is set and
  open; \<open>redisConnecting\<close>; \<open>redisLastError\<close>), and the cache store itself (key: the
  text stored and its time to live in seconds).
\<close>

record RateLimit =
  count :: nat
  resetTime :: int

record Profiler =
  GROK_API_KEY :: "string option"
  userRateLimits :: "string \<rightharpoonup> RateLimit"
  redis_isOpen :: bool
  redisConnecting :: bool
  redisLastError :: int
  cache_store :: "string \<rightharpoonup> string \<times> nat"

definition REDIS_BACKOFF_MS :: int where
  "REDIS_BACKOFF_MS = 5000"

definition CACHE_TTL :: nat where
  "CACHE_TTL = 60 * 60 * 24 * 365"

definition RATE_LIMIT_WINDOW :: int where
  "RATE_LIMIT_WINDOW = 60 * 1000"

definition RATE_LIMIT_MAX :: nat where
  "RATE_LIMIT_MAX = 2"

text \<open>The sweep that \<open>setInterval\<close> runs every five minutes.\<close>

definition sweep :: "int \<Rightarrow> (string \<rightharpoonup> RateLimit) \<Rightarrow> (string \<rightharpoonup> RateLimit)" where
  "sweep t limits =
     (\<lambda>key. case limits key of
        None \<Rightarrow> None
      | Some v \<Rightarrow> if t > resetTime v then None else Some v)"

definition checkRateLimit ::
  "string \<Rightarrow> int \<Rightarrow> (string \<rightharpoonup> RateLimit) \<Rightarrow> bool \<times> (string \<rightharpoonup> RateLimit)" where
  "checkRateLimit userId t limits =
     (case limits userId of
        None \<Rightarrow> (True, limits(userId \<mapsto> \<lparr>count = 1, resetTime = t + RATE_LIMIT_WINDOW\<rparr>))
      | Some userLimit \<Rightarrow>
          if t > resetTime userLimit
          then (True, limits(userId \<mapsto> \<lparr>count = 1, resetTime = t + RATE_LIMIT_WINDOW\<rparr>))
          else if count userLimit \<ge> RATE_LIMIT_MAX then (False, limits)
          else (True, limits(userId \<mapsto> userLimit\<lparr>count := count userLimit + 1\<rparr>)))"

definition getCacheKey :: "string \<Rightarrow> string \<Rightarrow> string" where
  "getCacheKey fp cb = ''yourinfo:profile:'' @ fp @ '':'' @ cb"

text \<open>
  \<open>try { ... } catch (err) { ... }\<close> on a computation that may throw: \<open>try_catch\<close>
  for one that only computes a value, \<open>try_catch_st\<close> for one that also changes a state,
  which the handler finds as the exception left it.
\<close>

definition try_catch :: "exn + 'a \<Rightarrow> (exn \<Rightarrow> exn + 'a) \<Rightarrow> exn + 'a" where
  "try_catch body handler = (case body of Inl err \<Rightarrow> handler err | Inr x \<Rightarrow> Inr x)"

definition try_catch_st ::
  "(exn + 'a) \<times> 's \<Rightarrow> (exn \<Rightarrow> 's \<Rightarrow> (exn + 'a) \<times> 's) \<Rightarrow> (exn + 'a) \<times> 's" where
  "try_catch_st body handler =
     (case body of (Inl err, s) \<Rightarrow> handler err s | (Inr x, s) \<Rightarrow> (Inr x, s))"

text \<open>
  \<open>getRedis\<close>, with the reading of the clock at its start, the outcome of
  \<open>redis.connect()\<close> and the reading of the clock in its \<open>catch\<close>. It tells whether it
  returns a client: none during the back-off of five seconds after an error, the open
  client if there is one, none while another call is connecting, otherwise the outcome of
  a connection attempt.
\<close>

definition getRedis :: "int \<Rightarrow> bool \<Rightarrow> int \<Rightarrow> Profiler \<Rightarrow> bool \<times> Profiler" where
  "getRedis t connects t_failed st =
     (if redisLastError st > 0 \<and> t - redisLastError st < REDIS_BACKOFF_MS then (False, st)
      else if redis_isOpen st then (True, st)
      else if redisConnecting st then (False, st)
      else if connects
      then (True, st\<lparr>redis_isOpen := True, redisConnecting := False, redisLastError := 0\<rparr>)
      else (False, st\<lparr>redis_isOpen := False, redisConnecting := False,
                       redisLastError := t_failed\<rparr>))"

text \<open>The commands of the cache client.\<close>

definition redis_get :: "Outside \<Rightarrow> Profiler \<Rightarrow> string \<Rightarrow> exn + string option" where
  "redis_get out st key =
     (if get_rejects out then Inl NetworkError else Inr (map_option fst (cache_store st key)))"

definition redis_setEx ::
  "Outside \<Rightarrow> string \<Rightarrow> nat \<Rightarrow> string \<Rightarrow> Profiler \<Rightarrow> (exn + unit) \<times> Profiler" where
  "redis_setEx out key seconds text st =
     (if setEx_rejects out then (Inl NetworkError, st)
      else (Inr (), st\<lparr>cache_store := (cache_store st)(key \<mapsto> (text, seconds))\<rparr>))"

definition getCachedProfile ::
  "Outside \<Rightarrow> Profiler \<Rightarrow> string \<Rightarrow> (exn + UserProfile option) \<times> Profiler" where
  "getCachedProfile out st cacheKey =
     try_catch_st
       (case getRedis (now_get out) (connects_at_get out) (now_get_failed out) st of
          (has_client, st1) \<Rightarrow>
            if \<not> has_client then (Inr None, st1)
            else case redis_get out st1 cacheKey of
              Inl err \<Rightarrow> (Inl err, st1)
            | Inr cached \<Rightarrow>
                if truthy cached then (JSON_parse_cached out (the cached), st1)
                else (Inr None, st1))
       (\<lambda>err s. (Inr None, s))"

definition cacheProfile ::
  "Outside \<Rightarrow> string \<Rightarrow> UserProfile \<Rightarrow> Profiler \<Rightarrow> (exn + unit) \<times> Profiler" where
  "cacheProfile out cacheKey p st =
     try_catch_st
       (case getRedis (now_setEx out) (connects_at_setEx out) (now_setEx_failed out) st of
          (has_client, st1) \<Rightarrow>
            if \<not> has_client then (Inr (), st1)
            else redis_setEx out cacheKey CACHE_TTL (JSON_stringify out p) st1)
       (\<lambda>err s. (Inr (), s))"

text \<open>
  Reading a member of a value: \<open>null.name\<close> throws; an object gives the member or
  \<open>undefined\<close> (\<open>None\<close>); any other value has no such member.
\<close>

definition member :: "json \<Rightarrow> string \<Rightarrow> exn + json option" where
  "member j name =
     (case j of
        JNull \<Rightarrow> Inl TypeError
      | JObj ms \<Rightarrow> Inr (map_of ms name)
      | _ \<Rightarrow> Inr None)"

text \<open>\<open>x?.[0]\<close> and \<open>x?.name\<close>: \<open>undefined\<close> when \<open>x\<close> is \<open>undefined\<close> or \<open>null\<close>.\<close>

definition opt_first :: "json option \<Rightarrow> json option" where
  "opt_first x =
     (case x of
        None \<Rightarrow> None
      | Some JNull \<Rightarrow> None
      | Some (JArr xs) \<Rightarrow> (case xs of [] \<Rightarrow> None | y # ys \<Rightarrow> Some y)
      | Some (JObj ms) \<Rightarrow> map_of ms ''0''
      | Some (JStr t) \<Rightarrow> (case t of [] \<Rightarrow> None | c # cs \<Rightarrow> Some (JStr [c]))
      | Some _ \<Rightarrow> None)"

definition opt_member :: "json option \<Rightarrow> string \<Rightarrow> json option" where
  "opt_member x name =
     (case x of
        None \<Rightarrow> None
      | Some JNull \<Rightarrow> None
      | Some (JObj ms) \<Rightarrow> map_of ms name
      | Some _ \<Rightarrow> None)"

text \<open>\<open>data.choices?.[0]?.message?.content\<close>.\<close>

definition content_of :: "json \<Rightarrow> exn + json option" where
  "content_of data =
     (case member data ''choices'' of
        Inl err \<Rightarrow> Inl err
      | Inr choices \<Rightarrow> Inr (opt_member (opt_member (opt_first choices) ''message'') ''content''))"

definition truthy_json :: "json option \<Rightarrow> bool" where
  "truthy_json x =
     (case x of
        None \<Rightarrow> False
      | Some JNull \<Rightarrow> False
      | Some (JBool b) \<Rightarrow> b
      | Some (JNum q) \<Rightarrow> q \<noteq> 0
      | Some (JStr t) \<Rightarrow> t \<noteq> []
      | Some _ \<Rightarrow> True)"

text \<open>
  String helpers of \<open>parseAIResponse\<close>. \<open>trim\<close> removes the ASCII white space at both
  ends; the fence is three backquotes.
\<close>

definition is_space :: "char \<Rightarrow> bool" where
  "is_space c = (c \<in> set [CHR 0x20, CHR 0x09, CHR 0x0A, CHR 0x0B, CHR 0x0C, CHR 0x0D])"

definition trim :: "string \<Rightarrow> string" where
  "trim t = rev (dropWhile is_space (rev (dropWhile is_space t)))"

definition startsWith :: "string \<Rightarrow> string \<Rightarrow> bool" where
  "startsWith t p = (take (length p) t = p)"

definition endsWith :: "string \<Rightarrow> string \<Rightarrow> bool" where
  "endsWith t p = (length p \<le> length t \<and> drop (length t - length p) t = p)"

definition fence :: string where
  "fence = replicate 3 (CHR 0x60)"

definition clean :: "string \<Rightarrow> string" where
  "clean response =
     (let c0 = trim response;
          c1 = (if startsWith c0 (fence @ ''json'') then drop 7 c0 else c0);
          c2 = (if startsWith c1 fence then drop 3 c1 else c1);
          c3 = (if endsWith c2 fence then take (length c2 - 3) c2 else c2)
      in trim c3)"

text \<open>
  \<open>parseAIResponse\<close>, applied to the content of the answer. Everything it throws ends in
  its own \<open>catch\<close>, which returns \<open>null\<close>: a content that is not a string (no
  \<open>trim\<close>), a text that does not parse, the value \<open>null\<close>, a \<open>likelyDeveloper\<close>
  that is not a boolean or a \<open>developerScore\<close> that is not a number.
\<close>

definition validated :: "Outside \<Rightarrow> json \<Rightarrow> exn + UserProfile" where
  "validated out parsed =
     (case member parsed ''likelyDeveloper'' of
        Inl err \<Rightarrow> Inl err
      | Inr ld \<Rightarrow>
          (case member parsed ''developerScore'' of
             Inl err \<Rightarrow> Inl err
           | Inr ds \<Rightarrow>
               (case (ld, ds) of
                  (Some (JBool b), Some (JNum q)) \<Rightarrow>
                    Inr \<lparr>likelyDeveloper = b,
                         developerScore = min 100 (max 0 q),
                         aiGenerated = False,
                         inferences = other_members out parsed\<rparr>
                | _ \<Rightarrow> Inl (Error ''Invalid AI response structure''))))"

definition parseAIResponse :: "Outside \<Rightarrow> json \<Rightarrow> UserProfile option" where
  "parseAIResponse out response =
     (case try_catch
        (case response of
           JStr t \<Rightarrow>
             (case JSON_parse out (clean t) of
                Inl err \<Rightarrow> Inl err
              | Inr parsed \<Rightarrow> (case validated out parsed of
                   Inl err \<Rightarrow> Inl err
                 | Inr p \<Rightarrow> Inr (Some p)))
         | _ \<Rightarrow> Inl TypeError)
        (\<lambda>err. Inr None) of
        Inl err \<Rightarrow> None
      | Inr r \<Rightarrow> r)"

datatype Source = ai | cache | fallback

record Result =
  profile :: "UserProfile option"
  source :: Source
  error :: "string option"

definition or_default :: "string option \<Rightarrow> string \<Rightarrow> string" where
  "or_default x d = (if truthy x then the x else d)"

text \<open>A number in a template string.\<close>

fun show_nat :: "nat \<Rightarrow> string" where
  "show_nat k =
     (if k < 10 then [char_of (48 + k)]
      else show_nat (k div 10) @ [char_of (48 + k mod 10)])"

declare show_nat.simps [simp del]

definition fallback_result :: "string \<Rightarrow> Result" where
  "fallback_result message = \<lparr>profile = None, source = fallback, error = Some message\<rparr>"

text \<open>
  The \<open>try\<close> block of \<open>generateAIProfile\<close>: the request to the inference service and
  the reading of its answer, with every exception that can leave it.
\<close>

definition ai_request ::
  "Outside \<Rightarrow> ClientInfo \<Rightarrow> GeoData option \<Rightarrow> string \<Rightarrow> Profiler \<Rightarrow> (exn + Result) \<times> Profiler" where
  "ai_request out clientInfo geoData cacheKey st =
     (case buildPrompt out clientInfo geoData of
        Inl err \<Rightarrow> (Inl err, st)
      | Inr prompt \<Rightarrow>
          (case fetch out prompt of
             Inl err \<Rightarrow> (Inl err, st)
           | Inr response \<Rightarrow>
               if \<not> ok response then
                 (case text_body response of
                    Inl err \<Rightarrow> (Inl err, st)
                  | Inr errorText \<Rightarrow>
                      (Inr (fallback_result (''Grok API error: '' @ show_nat (status response))),
                       st))
               else
                 (case json_body response of
                    Inl err \<Rightarrow> (Inl err, st)
                  | Inr data \<Rightarrow>
                      (case content_of data of
                         Inl err \<Rightarrow> (Inl err, st)
                       | Inr content \<Rightarrow>
                           if \<not> truthy_json content
                           then (Inr (fallback_result ''Empty AI response''), st)
                           else
                             (case parseAIResponse out (the content) of
                                None \<Rightarrow> (Inr (fallback_result ''Failed to parse AI response''), st)
                              | Some p0 \<Rightarrow>
                                  (let p = p0\<lparr>aiGenerated := True\<rparr>
                                   in case cacheProfile out cacheKey p st of
                                        (Inl err, st') \<Rightarrow> (Inl err, st')
                                      | (Inr u, st') \<Rightarrow>
                                          (Inr \<lparr>profile = Some p, source = ai, error = None\<rparr>,
                                           st')))))))"

text \<open>
  \<open>generateAIProfile\<close>. The first component is \<open>Inl\<close> when the call throws to its
  caller, otherwise the object returned; the second is the state of the module after the
  call.
\<close>

definition generateAIProfile ::
  "Outside \<Rightarrow> ClientInfo \<Rightarrow> GeoData option \<Rightarrow> Profiler \<Rightarrow> (exn + Result) \<times> Profiler" where
  "generateAIProfile out clientInfo geoData st =
     (let fp = or_default (fingerprintId clientInfo) ''unknown'';
          cb = or_default (crossBrowserId clientInfo) ''unknown'';
          cacheKey = getCacheKey fp cb
      in case getCachedProfile out st cacheKey of
           (Inl err, st0) \<Rightarrow> (Inl err, st0)
         | (Inr (Some cached), st0) \<Rightarrow>
             (Inr \<lparr>profile = Some cached, source = cache, error = None\<rparr>, st0)
         | (Inr None, st0) \<Rightarrow>
             if \<not> truthy (GROK_API_KEY st0)
             then (Inr (fallback_result ''AI not configured''), st0)
             else
               (let userId = fp @ '':'' @ cb;
                    checked = checkRateLimit userId (date_now out) (userRateLimits st0);
                    st1 = st0\<lparr>userRateLimits := snd checked\<rparr>
                in if \<not> fst checked
                   then (Inr (fallback_result ''Rate limited''), st1)
                   else try_catch_st (ai_request out clientInfo geoData cacheKey st1)
                          (\<lambda>err s. (Inr (fallback_result (String_of out err)), s))))"

text \<open>The identity of a bundle of device facts, as the rate limiter names it.\<close>

definition userId_of :: "ClientInfo \<Rightarrow> string" where
  "userId_of clientInfo =
     or_default (fingerprintId clientInfo) ''unknown'' @ '':'' @
     or_default (crossBrowserId clientInfo) ''unknown''"

definition cacheKey_of :: "ClientInfo \<Rightarrow> string" where
  "cacheKey_of clientInfo =
     getCacheKey (or_default (fingerprintId clientInfo) ''unknown'')
       (or_default (crossBrowserId clientInfo) ''unknown'')"

text \<open>
  The outcome of \<open>getRedis\<close> at the read of the cache: whether it gives a client, and
  the state it leaves.
\<close>

definition client_at_get :: "Outside \<Rightarrow> Profiler \<Rightarrow> bool" where
  "client_at_get out st =
     fst (getRedis (now_get out) (connects_at_get out) (now_get_failed out) st)"

definition after_get :: "Outside \<Rightarrow> Profiler \<Rightarrow> Profiler" where
  "after_get out st =
     snd (getRedis (now_get out) (connects_at_get out) (now_get_failed out) st)"

text \<open>
  Whether the inference service answers with a profile: the profile that the \<open>try\<close>
  block reads when no step of it fails, \<open>None\<close> when the prompt cannot be built, the
  request rejects, the status is not a success, the body is not JSON, the content is empty
  or \<open>parseAIResponse\<close> rejects it.
\<close>

definition inference_answer :: "Outside \<Rightarrow> ClientInfo \<Rightarrow> GeoData option \<Rightarrow> UserProfile option" where
  "inference_answer out clientInfo geoData =
     (case buildPrompt out clientInfo geoData of
        Inl err \<Rightarrow> None
      | Inr prompt \<Rightarrow>
          (case fetch out prompt of
             Inl err \<Rightarrow> None
           | Inr response \<Rightarrow>
               if \<not> ok response then None
               else (case json_body response of
                       Inl err \<Rightarrow> None
                     | Inr data \<Rightarrow>
                         (case content_of data of
                            Inl err \<Rightarrow> None
                          | Inr content \<Rightarrow>
                              if \<not> truthy_json content then None
                              else parseAIResponse out (the content)))))"

text \<open>A sequence of enrichment requests, one after the other, on the state of the module.\<close>

fun requests :: "(Outside \<times> ClientInfo) list \<Rightarrow> Profiler \<Rightarrow> (exn + Result) list" where
  "requests [] st = []"
| "requests ((out, clientInfo) # rest) st =
     (case generateAIProfile out clientInfo None st of
        (res, st') \<Rightarrow> res # requests rest st')"

section \<open>Sample data\<close>

text \<open>Two sample records: a visitor located by the geolocation lookup, and a loopback one.\<close>

definition geo_B :: GeoLocation where
  "geo_B = \<lparr>lat = 97 / 2, lng = - (5 / 4), city = ''Paris'', region = ''IDF'',
            country = ''France'', countryCode = ''FR'', timezone = ''Europe/Paris'',
            isp = ''ISP-1'', org = ''Org-1'', as_name = ''AS-1''\<rparr>"

definition visitor_B :: VisitorInfo where
  "visitor_B = \<lparr>id_v = ''v_b'',
                server = \<lparr>ip = ''203.0.113.9'', geo = Some geo_B, userAgent = ''UA'',
                          acceptLanguage = ''fr'', referer = ''Direct'', headers = []\<rparr>,
                client = None, connectedAt = 1000\<rparr>"

definition visitor_A :: VisitorInfo where
  "visitor_A = \<lparr>id_v = ''v_a'',
                server = \<lparr>ip = ''127.0.0.1'', geo = None, userAgent = ''UA'',
                          acceptLanguage = ''en'', referer = ''Direct'', headers = []\<rparr>,
                client = None, connectedAt = 900\<rparr>"

text \<open>
  Sample states: an instance connected to the shared store, with no visitor and with
  visitor \<open>v_b\<close> connected; two bundles of device facts, the second one without the
  fingerprint of the first.
\<close>

definition shared_0 :: SharedVisitors where
  "shared_0 = \<lparr>pubClient = True, isConnected = True, INSTANCE_ID = ''instance_3020_a'',
               redis = \<lparr>up = True, visitors_hash = [], visitors_ttl = None, channel = []\<rparr>\<rparr>"

definition socket_0 :: WebSocket where
  "socket_0 = \<lparr>readyState = OPEN, visitorId = None\<rparr>"

definition socket_B :: WebSocket where
  "socket_B = \<lparr>readyState = OPEN, visitorId = Some ''v_b''\<rparr>"

definition state_B :: ServerState where
  "state_B = \<lparr>localVisitors = [(''v_b'', visitor_B)], allVisitors = [(''v_b'', visitor_B)],
              connections = [(''v_b'', socket_B)], shared = shared_0, sent = [], tracked = []\<rparr>"

definition facts_1 :: ClientInfo where
  "facts_1 = \<lparr>fingerprintId = Some ''fp1'', crossBrowserId = Some ''cb1'', userProfile = None,
              facts = [(''language'', ''fr'')]\<rparr>"

definition facts_2 :: ClientInfo where
  "facts_2 = \<lparr>fingerprintId = None, crossBrowserId = Some ''cb1'', userProfile = None,
              facts = []\<rparr>"

definition client_info :: "ClientInfo \<Rightarrow> Incoming" where
  "client_info c = Envelope ''client_info'' (ClientInfoPayload (Some c))"

text \<open>A connected shared store whose directory expires in ten seconds.\<close>

definition shared_B :: SharedVisitors where
  "shared_B = \<lparr>pubClient = True, isConnected = True, INSTANCE_ID = ''instance_3020_a'',
               redis = \<lparr>up = True, visitors_hash = [(''v_b'', visitor_B)],
                        visitors_ttl = Some 10, channel = []\<rparr>\<rparr>"

text \<open>
  Samples for the enrichment: an answer of the inference service and the profile read from
  it, an outside world where the store and the service work, one where the service is
  unreachable, and states of the module.
\<close>

definition answer_json :: json where
  "answer_json = JObj [(''likelyDeveloper'', JBool True), (''developerScore'', JNum 120)]"

definition profile_1 :: UserProfile where
  "profile_1 = \<lparr>likelyDeveloper = True, developerScore = 100, aiGenerated = True,
                inferences = []\<rparr>"

definition response_ok :: Response where
  "response_ok =
     \<lparr>ok = True, status = 200, text_body = Inr ''ok'',
      json_body = Inr (JObj [(''choices'',
        JArr [JObj [(''message'', JObj [(''content'', JStr ''{}'')])]])])\<rparr>"

definition outside_ok :: Outside where
  "outside_ok =
     \<lparr>now_get = 1000, connects_at_get = True, now_get_failed = 1000, get_rejects = False,
      date_now = 1000,
      now_setEx = 1000, connects_at_setEx = True, now_setEx_failed = 1000,
      setEx_rejects = False,
      JSON_parse = (\<lambda>t. Inr answer_json),
      JSON_parse_cached = (\<lambda>t. Inr (Some profile_1)),
      JSON_stringify = (\<lambda>p. ''profile''),
      String_of = (\<lambda>e. ''Error''),
      buildPrompt = (\<lambda>c d. Inr ''prompt''),
      other_members = (\<lambda>j. []),
      fetch = (\<lambda>p. Inr response_ok)\<rparr>"

definition outside_down :: Outside where
  "outside_down = outside_ok\<lparr>fetch := (\<lambda>p. Inl NetworkError)\<rparr>"

definition profiler_0 :: Profiler where
  "profiler_0 = \<lparr>GROK_API_KEY = Some ''key'', userRateLimits = Map.empty,
                 redis_isOpen = True, redisConnecting = False, redisLastError = 0,
                 cache_store = Map.empty\<rparr>"

definition profiler_1 :: Profiler where
  "profiler_1 =
     \<lparr>GROK_API_KEY = Some ''key'',
      userRateLimits = [''fp1:cb1'' \<mapsto> \<lparr>count = 1, resetTime = 61000\<rparr>],
      redis_isOpen = True, redisConnecting = False, redisLastError = 0,
      cache_store = [''yourinfo:profile:fp1:cb1'' \<mapsto> (''profile'', CACHE_TTL)]\<rparr>"

definition profiler_full :: Profiler where
  "profiler_full =
     \<lparr>GROK_API_KEY = Some ''key'',
      userRateLimits = [''fp1:cb1'' \<mapsto> \<lparr>count = 2, resetTime = 61000\<rparr>],
      redis_isOpen = True, redisConnecting = False, redisLastError = 0,
      cache_store = Map.empty\<rparr>"

definition profiler_cached :: Profiler where
  "profiler_cached =
     \<lparr>GROK_API_KEY = None, userRateLimits = Map.empty,
      redis_isOpen = True, redisConnecting = False, redisLastError = 998000,
      cache_store = [''yourinfo:profile:fp1:cb1'' \<mapsto> (''profile'', CACHE_TTL)]\<rparr>"

section \<open>Theorems\<close>

lemma Math_round_nearest: "\<bar>Math_round x - x\<bar> \<le> 1 / 2"
  unfolding Math_round_def using of_int_round_abs_le [of x] by (simp add: round_def)

lemma Math_round_whole: "Math_round x \<in> \<int>"
  by (simp add: Math_round_def)

lemma Math_round_idem: "Math_round (Math_round x) = Math_round x"
proof -
  have "round (of_int \<lfloor>x + 1 / 2\<rfloor> :: rat) = \<lfloor>x + 1 / 2\<rfloor>"
    by (rule round_of_int)
  then show ?thesis by (simp add: Math_round_def round_def)
qed

subsection \<open>Redaction\<close>

lemma redact_eq: "redact r v = (if id_v r = v then r else redactVisitorInfo r)"
  by (simp add: redact_def redactVisitorsExcept_def)

text \<open>
  C1. For every visitor record \<open>r\<close> and viewer id \<open>v\<close>: when \<open>r\<close> is the viewer's own
  record the redaction layer returns it unchanged, and \<open>redactVisitorsExcept\<close> maps it to
  itself. Otherwise the copy has the fixed placeholder as \<open>server.ip\<close>; a null
  \<open>server.geo\<close> stays null; a present one has \<open>city\<close>, \<open>isp\<close> and \<open>org\<close> masked and
  \<open>lat\<close>, \<open>lng\<close> replaced by \<open>Math.round\<close> of themselves, which is a whole number
  at distance at most 1/2; every other field of the record, of \<open>server\<close> and of \<open>geo\<close>
  is the one of \<open>r\<close>. On a list, \<open>redactVisitorsExcept\<close> does this to each element.
\<close>

theorem redact_fields:
  "(id_v r = v \<longrightarrow> redact r v = r \<and> redactVisitorsExcept [r] v = [r]) \<and>
   (id_v r \<noteq> v \<longrightarrow>
      redactVisitorsExcept [r] v = [redact r v] \<and>
      ip (server (redact r v)) = IP_MASK \<and>
      (case geo (server r) of
         None \<Rightarrow> geo (server (redact r v)) = None
       | Some g \<Rightarrow>
           (case geo (server (redact r v)) of
              None \<Rightarrow> False
            | Some g' \<Rightarrow>
                city g' = FIELD_MASK \<and> isp g' = FIELD_MASK \<and> org g' = FIELD_MASK \<and>
                lat g' = Math_round (lat g) \<and> lat g' \<in> \<int> \<and> \<bar>lat g' - lat g\<bar> \<le> 1 / 2 \<and>
                lng g' = Math_round (lng g) \<and> lng g' \<in> \<int> \<and> \<bar>lng g' - lng g\<bar> \<le> 1 / 2 \<and>
                region g' = region g \<and> country g' = country g \<and>
                countryCode g' = countryCode g \<and> timezone g' = timezone g \<and>
                as_name g' = as_name g)) \<and>
      id_v (redact r v) = id_v r \<and>
      connectedAt (redact r v) = connectedAt r \<and>
      client (redact r v) = client r \<and>
      userAgent (server (redact r v)) = userAgent (server r) \<and>
      acceptLanguage (server (redact r v)) = acceptLanguage (server r) \<and>
      referer (server (redact r v)) = referer (server r) \<and>
      headers (server (redact r v)) = headers (server r)) \<and>
   redactVisitorsExcept rs v = map (\<lambda>x. redact x v) rs"
proof (intro conjI impI)
  assume own: "id_v r = v"
  show "redact r v = r" using own by (simp add: redact_eq)
  show "redactVisitorsExcept [r] v = [r]" using own by (simp add: redactVisitorsExcept_def)
next
  assume other: "id_v r \<noteq> v"
  have eq: "redact r v = redactVisitorInfo r" using other by (simp add: redact_eq)
  show "redactVisitorsExcept [r] v = [redact r v]"
    by (simp add: redact_def redactVisitorsExcept_def)
  show "ip (server (redact r v)) = IP_MASK"
    by (simp add: eq redactVisitorInfo_def)
  show "case geo (server r) of
         None \<Rightarrow> geo (server (redact r v)) = None
       | Some g \<Rightarrow>
           (case geo (server (redact r v)) of
              None \<Rightarrow> False
            | Some g' \<Rightarrow>
                city g' = FIELD_MASK \<and> isp g' = FIELD_MASK \<and> org g' = FIELD_MASK \<and>
                lat g' = Math_round (lat g) \<and> lat g' \<in> \<int> \<and> \<bar>lat g' - lat g\<bar> \<le> 1 / 2 \<and>
                lng g' = Math_round (lng g) \<and> lng g' \<in> \<int> \<and> \<bar>lng g' - lng g\<bar> \<le> 1 / 2 \<and>
                region g' = region g \<and> country g' = country g \<and>
                countryCode g' = countryCode g \<and> timezone g' = timezone g \<and>
                as_name g' = as_name g)"
  proof (cases "geo (server r)")
    case None
    then show ?thesis by (simp add: eq redactVisitorInfo_def)
  next
    case (Some g)
    have "\<bar>Math_round (lat g) - lat g\<bar> \<le> 1 / 2" "\<bar>Math_round (lng g) - lng g\<bar> \<le> 1 / 2"
      by (rule Math_round_nearest)+
    with Some show ?thesis
      by (simp add: eq redactVisitorInfo_def Math_round_whole)
  qed
  show "id_v (redact r v) = id_v r" by (simp add: eq redactVisitorInfo_def)
  show "connectedAt (redact r v) = connectedAt r" by (simp add: eq redactVisitorInfo_def)
  show "client (redact r v) = client r" by (simp add: eq redactVisitorInfo_def)
  show "userAgent (server (redact r v)) = userAgent (server r)"
    by (simp add: eq redactVisitorInfo_def)
  show "acceptLanguage (server (redact r v)) = acceptLanguage (server r)"
    by (simp add: eq redactVisitorInfo_def)
  show "referer (server (redact r v)) = referer (server r)"
    by (simp add: eq redactVisitorInfo_def)
  show "headers (server (redact r v)) = headers (server r)"
    by (simp add: eq redactVisitorInfo_def)
next
  show "redactVisitorsExcept rs v = map (\<lambda>x. redact x v) rs"
    by (simp add: redactVisitorsExcept_def redact_eq)
qed

theorem redact_fields_witness:
  "redact visitor_B ''v_b'' = visitor_B \<and>
   ip (server (redact visitor_B ''v_a'')) = IP_MASK \<and>
   map_option lat (geo (server (redact visitor_B ''v_a''))) = Some 49 \<and>
   map_option lng (geo (server (redact visitor_B ''v_a''))) = Some (- 1) \<and>
   geo (server (redact visitor_A ''v_b'')) = None"
proof -
  have own: "id_v visitor_B = ''v_b''" and other: "id_v visitor_B \<noteq> ''v_a''"
    and other': "id_v visitor_A \<noteq> ''v_b''"
    by (simp_all add: visitor_B_def visitor_A_def)
  have g: "geo (server visitor_B) = Some geo_B" and g': "geo (server visitor_A) = None"
    by (simp_all add: visitor_B_def visitor_A_def)
  have fl: "\<lfloor>- (3 / 4) :: rat\<rfloor> = - 1" by (simp add: floor_eq_iff)
  have r1: "Math_round (lat geo_B) = 49" and r2: "Math_round (lng geo_B) = - 1"
    by (simp_all add: geo_B_def Math_round_def fl)
  have a: "redact visitor_B ''v_b'' = visitor_B"
    using redact_fields [of visitor_B "''v_b''"] own by blast
  have b: "ip (server (redact visitor_B ''v_a'')) = IP_MASK"
    using redact_fields [of visitor_B "''v_a''"] other by blast
  have c: "map_option lat (geo (server (redact visitor_B ''v_a''))) = Some 49 \<and>
           map_option lng (geo (server (redact visitor_B ''v_a''))) = Some (- 1)"
  proof (cases "geo (server (redact visitor_B ''v_a''))")
    case None
    then show ?thesis
      using redact_fields [of visitor_B "''v_a''"] other g by simp
  next
    case (Some g2)
    then have "lat g2 = Math_round (lat geo_B)" "lng g2 = Math_round (lng geo_B)"
      using redact_fields [of visitor_B "''v_a''"] other g by simp_all
    then show ?thesis using Some r1 r2 by simp
  qed
  have d: "geo (server (redact visitor_A ''v_b'')) = None"
    using redact_fields [of visitor_A "''v_b''"] other' g' by simp
  show ?thesis using a b c d by simp
qed

text \<open>
  C9. Redaction is idempotent: redacting a redacted record changes nothing, since the masks
  are constants and \<open>Math.round\<close> of a whole number is that number.
\<close>

theorem redactVisitorInfo_idempotent:
  "redactVisitorInfo (redactVisitorInfo r) = redactVisitorInfo r"
  by (cases "geo (server r)") (simp_all add: redactVisitorInfo_def Math_round_idem)

subsection \<open>The registries\<close>

lemma keys_update: "keys (AList.update k v m) = insert k (keys m)"
  using dom_update [of k v m] by (simp add: keys_def dom_map_of_conv_image_fst)

lemma keys_delete: "keys (AList.delete k m) = keys m - {k}"
  by (induction m) (auto simp: keys_def)

lemma keys_map_of: "map_of m k = Some v \<Longrightarrow> k \<in> keys m"
  by (auto simp: keys_def dest: map_of_SomeD intro: rev_image_eqI)

lemma broadcast_registries [simp]:
  "localVisitors (broadcast m e s) = localVisitors s"
  "allVisitors (broadcast m e s) = allVisitors s"
  "connections (broadcast m e s) = connections s"
  "shared (broadcast m e s) = shared s"
  by (simp_all add: broadcast_def)

lemma ws_open_registries:
  "localVisitors (snd (ws_open ws i serverInfo now s)) =
     AList.update i \<lparr>id_v = i, server = serverInfo, client = None, connectedAt = now\<rparr>
       (localVisitors s)"
  "allVisitors (snd (ws_open ws i serverInfo now s)) =
     AList.update i \<lparr>id_v = i, server = serverInfo, client = None, connectedAt = now\<rparr>
       (allVisitors s)"
  "connections (snd (ws_open ws i serverInfo now s)) =
     AList.update i (ws\<lparr>visitorId := Some i\<rparr>) (connections s)"
  by (simp_all add: ws_open_def Let_def)

lemma open_consistent:
  "registries_consistent s \<Longrightarrow> registries_consistent (snd (ws_open ws i serverInfo now s))"
  by (auto simp: registries_consistent_def ws_open_registries keys_update)

lemma ws_message_registries:
  "ws_message ws m s = s \<or>
   (\<exists>i v. i \<in> keys (localVisitors s) \<and>
      localVisitors (ws_message ws m s) = AList.update i v (localVisitors s) \<and>
      allVisitors (ws_message ws m s) = AList.update i v (allVisitors s) \<and>
      connections (ws_message ws m s) = connections s)"
proof (cases m)
  case Unparseable
  then show ?thesis by (simp add: ws_message_def)
next
  case (Envelope ty payload)
  show ?thesis
  proof (cases "ty = ''client_info''")
    case False
    with Envelope show ?thesis by (simp add: ws_message_def)
  next
    case ty: True
    show ?thesis
    proof (cases "visitorId ws")
      case None
      with Envelope ty show ?thesis by (simp add: ws_message_def)
    next
      case (Some i)
      show ?thesis
      proof (cases "map_of (localVisitors s) i")
        case None
        with Envelope ty Some show ?thesis by (simp add: ws_message_def)
      next
        case v0: (Some v0)
        then have mem: "i \<in> keys (localVisitors s)" by (rule keys_map_of)
        show ?thesis
        proof (cases payload)
          case NoPayload
          with Envelope ty Some v0 show ?thesis by (simp add: ws_message_def)
        next
          case (ClientInfoPayload ci)
          have "localVisitors (ws_message ws m s) = AList.update i (v0\<lparr>client := ci\<rparr>) (localVisitors s) \<and>
                allVisitors (ws_message ws m s) = AList.update i (v0\<lparr>client := ci\<rparr>) (allVisitors s) \<and>
                connections (ws_message ws m s) = connections s"
            using Envelope ty Some v0 ClientInfoPayload
            by (cases ci) (simp_all add: ws_message_def Let_def split: option.splits)
          with mem show ?thesis by blast
        qed
      qed
    qed
  qed
qed

lemma message_consistent:
  assumes "registries_consistent s"
  shows "registries_consistent (ws_message ws m s)"
proof -
  from ws_message_registries [of ws m s] show ?thesis
  proof
    assume "ws_message ws m s = s"
    with assms show ?thesis by simp
  next
    assume "\<exists>i v. i \<in> keys (localVisitors s) \<and>
      localVisitors (ws_message ws m s) = AList.update i v (localVisitors s) \<and>
      allVisitors (ws_message ws m s) = AList.update i v (allVisitors s) \<and>
      connections (ws_message ws m s) = connections s"
    then obtain i v where "i \<in> keys (localVisitors s)"
      "localVisitors (ws_message ws m s) = AList.update i v (localVisitors s)"
      "allVisitors (ws_message ws m s) = AList.update i v (allVisitors s)"
      "connections (ws_message ws m s) = connections s" by blast
    with assms show ?thesis
      by (auto simp: registries_consistent_def keys_update)
  qed
qed

lemma close_consistent:
  "registries_consistent s \<Longrightarrow> registries_consistent (ws_close ws s)"
  by (auto simp: ws_close_def Let_def registries_consistent_def keys_delete
      split: option.splits)

lemma remote_consistent:
  "registries_consistent s \<Longrightarrow> id_v (visitor event) \<notin> keys (localVisitors s) \<Longrightarrow>
   registries_consistent (remote_event event s)"
  by (auto simp: remote_event_def registries_consistent_def keys_update keys_delete
      split: VisitorEventType.splits)

text \<open>
  C10. Registry consistency: when the keys of \<open>connections\<close> are the keys of
  \<open>localVisitors\<close> and both lie within the keys of \<open>allVisitors\<close>, they still do after
  each websocket handler (\<open>open\<close>, \<open>message\<close>, \<open>close\<close>) and after the callback for a
  remote event, provided that event does not carry the id of a locally connected visitor.
\<close>

theorem registries_consistent_preserved:
  "registries_consistent s \<Longrightarrow>
     registries_consistent (snd (ws_open ws i serverInfo now s)) \<and>
     registries_consistent (ws_message ws' m s) \<and>
     registries_consistent (ws_close ws'' s) \<and>
     (id_v (visitor event) \<notin> keys (localVisitors s) \<longrightarrow>
        registries_consistent (remote_event event s))"
  by (simp add: open_consistent message_consistent close_consistent remote_consistent)

theorem registries_consistent_preserved_witness:
  "registries_consistent state_B \<and>
   registries_consistent (snd (ws_open socket_0 ''v_a'' (server visitor_A) 900 state_B)) \<and>
   registries_consistent (ws_message socket_B (client_info facts_1) state_B) \<and>
   registries_consistent (ws_close socket_B state_B) \<and>
   id_v (visitor \<lparr>event_type = left, visitor = visitor_A, instanceId = ''instance_3021_b''\<rparr>)
     \<notin> keys (localVisitors state_B) \<and>
   registries_consistent
     (remote_event \<lparr>event_type = left, visitor = visitor_A, instanceId = ''instance_3021_b''\<rparr>
        state_B)"
proof -
  have c: "registries_consistent state_B"
    by (simp add: registries_consistent_def state_B_def keys_def)
  have n: "id_v (visitor \<lparr>event_type = left, visitor = visitor_A,
                          instanceId = ''instance_3021_b''\<rparr>) \<notin> keys (localVisitors state_B)"
    by (simp add: state_B_def keys_def visitor_A_def)
  show ?thesis
    using c n
      registries_consistent_preserved [OF c, of socket_0 "''v_a''" "server visitor_A" 900
        socket_B "client_info facts_1" socket_B
        "\<lparr>event_type = left, visitor = visitor_A, instanceId = ''instance_3021_b''\<rparr>"]
    by blast
qed

subsection \<open>The \<open>client_info\<close> message\<close>

lemma ws_message_client_info_step:
  assumes "visitorId ws = Some i" and "map_of (localVisitors s) i = Some v0"
  shows "map_of (localVisitors (ws_message ws (Envelope ''client_info'' (ClientInfoPayload ci)) s)) i
           = Some (v0\<lparr>client := ci\<rparr>) \<and>
         map_of (allVisitors (ws_message ws (Envelope ''client_info'' (ClientInfoPayload ci)) s)) i
           = Some (v0\<lparr>client := ci\<rparr>)"
  using assms
  by (cases ci) (simp_all add: ws_message_def Let_def update_conv' broadcast_def split: option.splits)

text \<open>
  C3, as the code has it. For a visitor with an existing record, a \<open>client_info\<close> message
  stores the payload's \<open>clientInfo\<close> as the record's \<open>client\<close>, whole, in
  \<open>localVisitors\<close> and in \<open>allVisitors\<close>, and keeps \<open>id\<close>, \<open>server\<close> and
  \<open>connectedAt\<close>: after any sequence of such messages that is not empty, the record is
  the old one with the last payload's \<open>clientInfo\<close> as \<open>client\<close>. Nothing of the
  previous \<open>client\<close> is merged in.
\<close>

theorem client_info_replaces_client:
  assumes "visitorId ws = Some i" and "map_of (localVisitors s) i = Some v0" and "infos \<noteq> []"
  shows "map_of (localVisitors
           (foldl (\<lambda>t ci. ws_message ws (Envelope ''client_info'' (ClientInfoPayload ci)) t) s infos)) i
         = Some (v0\<lparr>client := last infos\<rparr>) \<and>
         map_of (allVisitors
           (foldl (\<lambda>t ci. ws_message ws (Envelope ''client_info'' (ClientInfoPayload ci)) t) s infos)) i
         = Some (v0\<lparr>client := last infos\<rparr>)"
  using assms
proof (induction infos arbitrary: s v0)
  case Nil
  then show ?case by simp
next
  case (Cons ci infos)
  let ?s1 = "ws_message ws (Envelope ''client_info'' (ClientInfoPayload ci)) s"
  have step: "map_of (localVisitors ?s1) i = Some (v0\<lparr>client := ci\<rparr>)"
    "map_of (allVisitors ?s1) i = Some (v0\<lparr>client := ci\<rparr>)"
    using ws_message_client_info_step [OF Cons.prems(1,2), of ci] by simp_all
  show ?case
  proof (cases "infos = []")
    case True
    then show ?thesis using step by simp
  next
    case False
    from Cons.IH [OF Cons.prems(1) step(1) False] False show ?thesis by simp
  qed
qed

theorem client_info_replaces_client_witness:
  "visitorId socket_B = Some ''v_b'' \<and>
   map_of (localVisitors state_B) ''v_b'' = Some visitor_B \<and>
   map_of (localVisitors
      (foldl (\<lambda>t ci. ws_message socket_B (Envelope ''client_info'' (ClientInfoPayload ci)) t)
         state_B [Some facts_1, Some facts_2])) ''v_b''
     = Some (visitor_B\<lparr>client := Some facts_2\<rparr>)"
proof -
  have a: "visitorId socket_B = Some ''v_b''" by (simp add: socket_B_def)
  have b: "map_of (localVisitors state_B) ''v_b'' = Some visitor_B" by (simp add: state_B_def)
  have c: "[Some facts_1, Some facts_2] \<noteq> []" by simp
  show ?thesis using a b client_info_replaces_client [OF a b c] by simp
qed

text \<open>
  C3, as stated, fails: visitor \<open>v_b\<close> sends device facts with a fingerprint and a
  language, then device facts without them; both, known after the first message, are
  absent after the second.
\<close>

theorem client_info_drops_field_counterexample:
  "map_option client
     (map_of (localVisitors (ws_message socket_B (client_info facts_1) state_B)) ''v_b'')
     = Some (Some facts_1) \<and>
   fingerprintId facts_1 = Some ''fp1'' \<and>
   map_option client
     (map_of (localVisitors
        (ws_message socket_B (client_info facts_2)
           (ws_message socket_B (client_info facts_1) state_B))) ''v_b'')
     = Some (Some facts_2) \<and>
   fingerprintId facts_2 = None \<and>
   map_of (facts facts_1) ''language'' = Some ''fr'' \<and>
   map_of (facts facts_2) ''language'' = None"
  by (simp add: state_B_def ws_message_def Let_def client_info_def
      socket_B_def broadcast_def facts_1_def facts_2_def truthy_def)

subsection \<open>The close handler\<close>


subsection \<open>The publishers\<close>

lemma update_not_Nil: "AList.update k v m \<noteq> []"
  by (cases m) simp_all

lemma publishVisitorJoined_connected:
  "pubClient sv \<Longrightarrow> isConnected sv \<Longrightarrow> up (redis sv) \<Longrightarrow>
   publishVisitorJoined v sv =
     sv\<lparr>redis := (redis sv)
        \<lparr>visitors_hash := AList.update (id_v v) v (visitors_hash (redis sv)),
         visitors_ttl := Some VISITOR_TTL,
         channel := channel (redis sv) @
           [\<lparr>event_type = joined, visitor = v, instanceId = INSTANCE_ID sv\<rparr>]\<rparr>\<rparr>"
  by (simp add: publishVisitorJoined_def hSet_def expire_def publish_def update_not_Nil)

lemma publishVisitorUpdated_connected:
  "pubClient sv \<Longrightarrow> isConnected sv \<Longrightarrow> up (redis sv) \<Longrightarrow>
   publishVisitorUpdated v sv =
     sv\<lparr>redis := (redis sv)
        \<lparr>visitors_hash := AList.update (id_v v) v (visitors_hash (redis sv)),
         channel := channel (redis sv) @
           [\<lparr>event_type = updated, visitor = v, instanceId = INSTANCE_ID sv\<rparr>]\<rparr>\<rparr>"
  by (simp add: publishVisitorUpdated_def hSet_def publish_def)

lemma publishVisitorUpdated_ttl:
  "visitors_ttl (redis (publishVisitorUpdated v sv)) = visitors_ttl (redis sv)"
  by (simp add: publishVisitorUpdated_def hSet_def publish_def)

text \<open>
  C4. With the shared store connected, \<open>publishVisitorJoined\<close> writes the record under
  its id, renews the directory's expiry to 300 seconds and publishes the event (lemma
  \<open>publishVisitorJoined_connected\<close>). \<open>publishVisitorUpdated\<close> writes the record and
  publishes the event, but never touches the expiry (lemma \<open>publishVisitorUpdated_ttl\<close>):
  on a directory with ten seconds left, an update leaves ten seconds, where a join gives
  300.
\<close>

theorem publishVisitorUpdated_no_expire:
  "visitors_ttl (redis (publishVisitorJoined visitor_B shared_B)) = Some 300 \<and>
   visitors_ttl (redis (publishVisitorUpdated (visitor_B\<lparr>client := Some facts_1\<rparr>) shared_B))
     = Some 10 \<and>
   map_of (visitors_hash
     (redis (publishVisitorUpdated (visitor_B\<lparr>client := Some facts_1\<rparr>) shared_B))) ''v_b''
     = Some (visitor_B\<lparr>client := Some facts_1\<rparr>) \<and>
   channel (redis (publishVisitorUpdated (visitor_B\<lparr>client := Some facts_1\<rparr>) shared_B))
     = [\<lparr>event_type = updated, visitor = visitor_B\<lparr>client := Some facts_1\<rparr>,
         instanceId = ''instance_3020_a''\<rparr>]"
  by (simp add: publishVisitorJoined_def publishVisitorUpdated_def hSet_def expire_def
      publish_def shared_B_def VISITOR_TTL_def visitor_B_def)

text \<open>
  The store of that evaluation is connected and answers, and the expiry that the update
  leaves is not the renewed one.
\<close>

theorem publishVisitorUpdated_no_expire_witness:
  "pubClient shared_B \<and> isConnected shared_B \<and> up (redis shared_B) \<and>
   visitors_ttl (redis (publishVisitorUpdated (visitor_B\<lparr>client := Some facts_1\<rparr>) shared_B))
     \<noteq> Some VISITOR_TTL"
proof -
  have c: "pubClient shared_B \<and> isConnected shared_B \<and> up (redis shared_B)"
    by (simp add: shared_B_def)
  have "visitors_ttl (redis (publishVisitorUpdated (visitor_B\<lparr>client := Some facts_1\<rparr>) shared_B))
          = Some 10"
    using publishVisitorUpdated_no_expire by blast
  then show ?thesis using c by (simp add: VISITOR_TTL_def)
qed

subsection \<open>The subscription\<close>

lemma forEach_Cons_count:
  "fst (snd (forEach (cb # cbs) event s)) =
     (case snd (cb event s) of
        Some e \<Rightarrow> 1
      | None \<Rightarrow> Suc (fst (snd (forEach cbs event (fst (cb event s))))))"
  by (cases "cb event s"; cases "forEach cbs event (fst (cb event s))")
     (auto split: option.splits)

lemma forEach_called_pos: "cbs \<noteq> [] \<Longrightarrow> 0 < fst (snd (forEach cbs event s))"
  by (cases cbs) (simp_all add: forEach_Cons_count del: forEach.simps(2) split: option.splits)

lemma forEach_called_le: "fst (snd (forEach cbs event s)) \<le> length cbs"
  by (induction cbs arbitrary: s) (simp_all add: forEach_Cons_count del: forEach.simps(2) split: option.splits)

lemma forEach_no_throw:
  "\<forall>cb \<in> set cbs. \<forall>t. snd (cb event t) = None \<Longrightarrow>
   fst (snd (forEach cbs event s)) = length cbs"
  by (induction cbs arbitrary: s) (simp_all add: forEach_Cons_count del: forEach.simps(2))

lemma forEach_applies:
  "forEach cbs event s = (s', n, r) \<Longrightarrow>
     n \<le> length cbs \<and>
     s' = foldl (\<lambda>t cb. fst (cb event t)) s (take n cbs) \<and>
     (\<forall>i. Suc i < n \<longrightarrow>
        snd ((cbs ! i) event (foldl (\<lambda>t cb. fst (cb event t)) s (take i cbs))) = None) \<and>
     (0 < n \<longrightarrow>
        snd ((cbs ! (n - 1)) event (foldl (\<lambda>t cb. fst (cb event t)) s (take (n - 1) cbs))) = r) \<and>
     (n < length cbs \<longrightarrow> r \<noteq> None) \<and>
     (n = 0 \<longrightarrow> cbs = [])"
proof (induction cbs arbitrary: s s' n r)
  case Nil
  then show ?case by simp
next
  case (Cons cb cbs)
  let ?F = "\<lambda>t cb. fst (cb event t)"
  obtain s1 x where cb: "cb event s = (s1, x)" by (cases "cb event s")
  show ?case
  proof (cases x)
    case (Some e)
    with cb Cons.prems have "s' = s1" "n = 1" "r = Some e" by simp_all
    with cb Some show ?thesis by simp
  next
    case None
    obtain s2 m r2 where rest: "forEach cbs event s1 = (s2, m, r2)"
      by (cases "forEach cbs event s1") auto
    with cb None Cons.prems have eq: "s' = s2" "n = Suc m" "r = r2" by simp_all
    note IH = Cons.IH [OF rest]
    have le: "n \<le> length (cb # cbs)" using IH eq by simp
    have st: "s' = foldl ?F s (take n (cb # cbs))" using IH eq cb by simp
    have before: "\<forall>i. Suc i < n \<longrightarrow>
        snd (((cb # cbs) ! i) event (foldl ?F s (take i (cb # cbs)))) = None"
    proof (intro allI impI)
      fix i assume i: "Suc i < n"
      show "snd (((cb # cbs) ! i) event (foldl ?F s (take i (cb # cbs)))) = None"
      proof (cases i)
        case 0
        then show ?thesis using cb None by simp
      next
        case (Suc j)
        with i eq have "Suc j < m" by simp
        with IH have "snd ((cbs ! j) event (foldl ?F s1 (take j cbs))) = None" by simp
        then show ?thesis using Suc cb by simp
      qed
    qed
    have last: "0 < n \<longrightarrow>
        snd (((cb # cbs) ! (n - 1)) event (foldl ?F s (take (n - 1) (cb # cbs)))) = r"
    proof (cases m)
      case 0
      with IH have "cbs = []" by simp
      with rest have "r2 = None" by simp
      with 0 eq cb None show ?thesis by simp
    next
      case (Suc j)
      with IH have "snd ((cbs ! j) event (foldl ?F s1 (take j cbs))) = r2" by simp
      then show ?thesis using Suc eq cb by simp
    qed
    have stop: "n < length (cb # cbs) \<longrightarrow> r \<noteq> None" using IH eq by simp
    show ?thesis using le st before last stop eq by simp
  qed
qed

text \<open>
  C8. For an event received on the channel (a message that parses), with \<open>n\<close> the
  number of callbacks that the handler calls and \<open>s'\<close> the state it leaves: a callback
  is called if and only if the event's origin differs from this instance's id (and a
  callback is registered). An event of this instance's own reaches no callback and leaves
  the state alone. An event of another instance is handed to the registered callbacks in
  their order, each one applied to that event and to the state that the one before left:
  the state afterwards is the state before with the first \<open>n\<close> callbacks applied; each
  callback called before the last one returned normally, and fewer than all are called
  only when the last one called threw. When no callback throws, all of them are applied.
\<close>

theorem subscription_self_suppression:
  "subscription_handler self cbs (Inr event) s = (s', n) \<Longrightarrow>
     (0 < n \<longleftrightarrow> instanceId event \<noteq> self \<and> cbs \<noteq> []) \<and>
     (instanceId event = self \<longrightarrow> n = 0 \<and> s' = s) \<and>
     (instanceId event \<noteq> self \<longrightarrow>
        s' = fst (forEach cbs event s) \<and> n = fst (snd (forEach cbs event s)) \<and>
        n \<le> length cbs \<and>
        s' = foldl (\<lambda>t cb. fst (cb event t)) s (take n cbs) \<and>
        (\<forall>i. Suc i < n \<longrightarrow>
           snd ((cbs ! i) event (foldl (\<lambda>t cb. fst (cb event t)) s (take i cbs))) = None) \<and>
        (n < length cbs \<longrightarrow>
           snd ((cbs ! (n - 1)) event
                  (foldl (\<lambda>t cb. fst (cb event t)) s (take (n - 1) cbs))) \<noteq> None)) \<and>
     (instanceId event \<noteq> self \<and> (\<forall>cb \<in> set cbs. \<forall>t. snd (cb event t) = None) \<longrightarrow>
        n = length cbs \<and> s' = foldl (\<lambda>t cb. fst (cb event t)) s cbs)"
proof (cases "instanceId event = self")
  case True
  assume "subscription_handler self cbs (Inr event) s = (s', n)"
  with True show ?thesis by (simp add: subscription_handler_def)
next
  case False
  assume h: "subscription_handler self cbs (Inr event) s = (s', n)"
  obtain r where f: "forEach cbs event s = (s', n, r)"
    using h False by (cases "forEach cbs event s") (simp add: subscription_handler_def)
  then have eq: "s' = fst (forEach cbs event s)" "n = fst (snd (forEach cbs event s))"
    by simp_all
  note A = forEach_applies [OF f]
  have pos: "0 < n \<longleftrightarrow> cbs \<noteq> []"
    using A by (cases n) auto
  have stop: "n < length cbs \<longrightarrow>
           snd ((cbs ! (n - 1)) event
                  (foldl (\<lambda>t cb. fst (cb event t)) s (take (n - 1) cbs))) \<noteq> None"
  proof
    assume l: "n < length cbs"
    then have "cbs \<noteq> []" by auto
    with pos have "0 < n" by simp
    with A l show "snd ((cbs ! (n - 1)) event
                  (foldl (\<lambda>t cb. fst (cb event t)) s (take (n - 1) cbs))) \<noteq> None"
      by simp
  qed
  have all: "(\<forall>cb \<in> set cbs. \<forall>t. snd (cb event t) = None) \<longrightarrow>
        n = length cbs \<and> s' = foldl (\<lambda>t cb. fst (cb event t)) s cbs"
  proof
    assume nt: "\<forall>cb \<in> set cbs. \<forall>t. snd (cb event t) = None"
    then have "n = length cbs" using forEach_no_throw [of cbs event s] eq by blast
    with A show "n = length cbs \<and> s' = foldl (\<lambda>t cb. fst (cb event t)) s cbs" by simp
  qed
  have mid: "s' = fst (forEach cbs event s) \<and> n = fst (snd (forEach cbs event s)) \<and>
        n \<le> length cbs \<and>
        s' = foldl (\<lambda>t cb. fst (cb event t)) s (take n cbs) \<and>
        (\<forall>i. Suc i < n \<longrightarrow>
           snd ((cbs ! i) event (foldl (\<lambda>t cb. fst (cb event t)) s (take i cbs))) = None) \<and>
        (n < length cbs \<longrightarrow>
           snd ((cbs ! (n - 1)) event
                  (foldl (\<lambda>t cb. fst (cb event t)) s (take (n - 1) cbs))) \<noteq> None)"
    using eq stop A by simp
  show ?thesis
    apply (intro conjI)
       apply (simp add: False pos)
      apply (simp add: False)
     apply (rule impI, rule mid)
    apply (rule impI, erule conjE, erule mp [OF all])
    done
qed

theorem subscription_self_suppression_witness:
  "subscription_handler ''instance_3020_a'' [remote_event_callback]
     (Inr \<lparr>event_type = joined, visitor = visitor_A, instanceId = ''instance_3020_a''\<rparr>) state_B
     = (state_B, 0) \<and>
   map_of (allVisitors state_B) ''v_a'' = None \<and>
   subscription_handler ''instance_3020_a'' [remote_event_callback]
     (Inr \<lparr>event_type = joined, visitor = visitor_A, instanceId = ''instance_3021_b''\<rparr>) state_B
     = (remote_event \<lparr>event_type = joined, visitor = visitor_A,
                       instanceId = ''instance_3021_b''\<rparr> state_B, 1) \<and>
   map_of (allVisitors (fst (subscription_handler ''instance_3020_a'' [remote_event_callback]
     (Inr \<lparr>event_type = joined, visitor = visitor_A, instanceId = ''instance_3021_b''\<rparr>)
     state_B))) ''v_a'' = Some visitor_A"
proof -
  let ?own = "\<lparr>event_type = joined, visitor = visitor_A, instanceId = ''instance_3020_a''\<rparr>"
  let ?other = "\<lparr>event_type = joined, visitor = visitor_A, instanceId = ''instance_3021_b''\<rparr>"
  obtain s1 n1 where r1: "subscription_handler ''instance_3020_a'' [remote_event_callback]
     (Inr ?own) state_B = (s1, n1)"
    by (cases "subscription_handler ''instance_3020_a'' [remote_event_callback]
     (Inr ?own) state_B")
  obtain s2 n2 where r2: "subscription_handler ''instance_3020_a'' [remote_event_callback]
     (Inr ?other) state_B = (s2, n2)"
    by (cases "subscription_handler ''instance_3020_a'' [remote_event_callback]
     (Inr ?other) state_B")
  have a: "n1 = 0 \<and> s1 = state_B"
    using subscription_self_suppression [OF r1] by simp
  have nothrow: "\<forall>cb \<in> set [remote_event_callback]. \<forall>t. snd (cb ?other t) = None"
    by (simp add: remote_event_callback_def)
  have inst: "instanceId ?other \<noteq> ''instance_3020_a''" by simp
  have b: "n2 = length [remote_event_callback] \<and>
           s2 = foldl (\<lambda>t cb. fst (cb ?other t)) state_B [remote_event_callback]"
    using subscription_self_suppression [OF r2] nothrow inst by blast
  then have b': "n2 = 1 \<and> s2 = remote_event ?other state_B"
    by (simp add: remote_event_callback_def)
  have before: "map_of (allVisitors state_B) ''v_a'' = None"
    by (simp add: state_B_def)
  have after: "map_of (allVisitors (remote_event ?other state_B)) ''v_a'' = Some visitor_A"
    by (simp add: remote_event_def broadcast_def update_conv' visitor_A_def)
  show ?thesis using a b' r1 r2 before after by simp
qed

subsection \<open>The close handler, at a sample state\<close>


subsection \<open>Enrichment: helper lemmas and sample evaluations\<close>

lemma getRedis_keeps [simp]:
  "GROK_API_KEY (snd (getRedis t c tf st)) = GROK_API_KEY st"
  "userRateLimits (snd (getRedis t c tf st)) = userRateLimits st"
  "cache_store (snd (getRedis t c tf st)) = cache_store st"
  by (simp_all add: getRedis_def)

lemma after_get_keeps [simp]:
  "GROK_API_KEY (after_get out st) = GROK_API_KEY st"
  "userRateLimits (after_get out st) = userRateLimits st"
  "cache_store (after_get out st) = cache_store st"
  by (simp_all add: after_get_def)

lemma after_get_limits:
  "(after_get out st)\<lparr>userRateLimits := userRateLimits st\<rparr> = after_get out st"
  using after_get_keeps(2) [of out st, symmetric] by simp

lemma getCachedProfile_eq:
  "getCachedProfile out st key =
     (if \<not> client_at_get out st then Inr None
      else case redis_get out (after_get out st) key of
             Inl err \<Rightarrow> Inr None
           | Inr cached \<Rightarrow>
               if truthy cached
               then (case JSON_parse_cached out (the cached) of
                       Inl err \<Rightarrow> Inr None | Inr r \<Rightarrow> Inr r)
               else Inr None,
      after_get out st)"
  by (cases "getRedis (now_get out) (connects_at_get out) (now_get_failed out) st")
     (simp add: getCachedProfile_def try_catch_st_def client_at_get_def after_get_def
        split: sum.splits)

lemma getCachedProfile_state: "snd (getCachedProfile out st key) = after_get out st"
  by (simp add: getCachedProfile_eq)

lemma getCachedProfile_total: "\<exists>r. fst (getCachedProfile out st key) = Inr r"
  by (simp add: getCachedProfile_eq split: sum.splits)

lemma getCachedProfile_hit:
  "client_at_get out st \<Longrightarrow> \<not> get_rejects out \<Longrightarrow> cache_store st key = Some (text, ttl) \<Longrightarrow>
   text \<noteq> [] \<Longrightarrow> JSON_parse_cached out text = Inr (Some p) \<Longrightarrow>
   fst (getCachedProfile out st key) = Inr (Some p)"
  by (simp add: getCachedProfile_eq redis_get_def truthy_def)

lemma getCachedProfile_unreachable:
  "\<not> client_at_get out st \<or> get_rejects out \<Longrightarrow> fst (getCachedProfile out st key) = Inr None"
  by (auto simp: getCachedProfile_eq redis_get_def)

lemma cacheProfile_total: "fst (cacheProfile out key p st) = Inr ()"
  by (cases "getRedis (now_setEx out) (connects_at_setEx out) (now_setEx_failed out) st")
     (simp add: cacheProfile_def try_catch_st_def redis_setEx_def)

lemma cacheProfile_keeps:
  "userRateLimits (snd (cacheProfile out key p st)) = userRateLimits st \<and>
   GROK_API_KEY (snd (cacheProfile out key p st)) = GROK_API_KEY st"
proof -
  obtain b st1 where g: "getRedis (now_setEx out) (connects_at_setEx out) (now_setEx_failed out) st
                           = (b, st1)"
    by (cases "getRedis (now_setEx out) (connects_at_setEx out) (now_setEx_failed out) st")
  have "userRateLimits st1 = userRateLimits st" "GROK_API_KEY st1 = GROK_API_KEY st"
    using getRedis_keeps(1,2) [of "now_setEx out" "connects_at_setEx out" "now_setEx_failed out" st]
    by (simp_all add: g)
  then show ?thesis
    by (simp add: cacheProfile_def try_catch_st_def redis_setEx_def g)
qed

lemma ai_request_success:
  assumes "inference_answer out ci g = Some p0"
  shows "ai_request out ci g key st =
          (Inr \<lparr>profile = Some (p0\<lparr>aiGenerated := True\<rparr>), source = ai, error = None\<rparr>,
           snd (cacheProfile out key (p0\<lparr>aiGenerated := True\<rparr>) st))"
proof -
  from assms obtain prompt where 1: "buildPrompt out ci g = Inr prompt"
    by (cases "buildPrompt out ci g") (simp_all add: inference_answer_def)
  from assms 1 obtain response where 2: "fetch out prompt = Inr response"
    by (cases "fetch out prompt") (simp_all add: inference_answer_def)
  from assms 1 2 have 3: "ok response"
    by (cases "ok response") (simp_all add: inference_answer_def)
  from assms 1 2 3 obtain data where 4: "json_body response = Inr data"
    by (cases "json_body response") (simp_all add: inference_answer_def)
  from assms 1 2 3 4 obtain content where 5: "content_of data = Inr content"
    by (cases "content_of data") (simp_all add: inference_answer_def)
  from assms 1 2 3 4 5 have 6: "truthy_json content"
    by (cases "truthy_json content") (simp_all add: inference_answer_def)
  from assms 1 2 3 4 5 6 have 7: "parseAIResponse out (the content) = Some p0"
    by (simp add: inference_answer_def)
  obtain st' where w: "cacheProfile out key (p0\<lparr>aiGenerated := True\<rparr>) st = (Inr (), st')"
    using cacheProfile_total [of out key "p0\<lparr>aiGenerated := True\<rparr>" st]
    by (cases "cacheProfile out key (p0\<lparr>aiGenerated := True\<rparr>) st") simp
  show ?thesis by (simp add: ai_request_def 1 2 3 4 5 6 7 Let_def w)
qed

lemma ai_request_failure:
  assumes "inference_answer out ci g = None"
  shows "(\<exists>err. ai_request out ci g key st = (Inl err, st)) \<or>
         (\<exists>message. ai_request out ci g key st = (Inr (fallback_result message), st))"
proof (cases "buildPrompt out ci g")
  case (Inl err)
  then show ?thesis by (simp add: ai_request_def)
next
  case 1: (Inr prompt)
  show ?thesis
  proof (cases "fetch out prompt")
    case (Inl err)
    with 1 show ?thesis by (simp add: ai_request_def)
  next
    case 2: (Inr response)
    show ?thesis
    proof (cases "ok response")
      case False
      with 1 2 show ?thesis by (cases "text_body response") (auto simp: ai_request_def)
    next
      case 3: True
      show ?thesis
      proof (cases "json_body response")
        case (Inl err)
        with 1 2 3 show ?thesis by (simp add: ai_request_def)
      next
        case 4: (Inr data)
        show ?thesis
        proof (cases "content_of data")
          case (Inl err)
          with 1 2 3 4 show ?thesis by (simp add: ai_request_def)
        next
          case 5: (Inr content)
          show ?thesis
          proof (cases "truthy_json content")
            case False
            with 1 2 3 4 5 show ?thesis by (auto simp: ai_request_def)
          next
            case True
            with assms 1 2 3 4 5 have "parseAIResponse out (the content) = None"
              by (simp add: inference_answer_def)
            with 1 2 3 4 5 True show ?thesis by (auto simp: ai_request_def)
          qed
        qed
      qed
    qed
  qed
qed

lemma try_request_result:
  "\<exists>res st'. try_catch_st (ai_request out ci g key st)
       (\<lambda>err s. (Inr (fallback_result (String_of out err)), s)) = (Inr res, st') \<and>
     userRateLimits st' = userRateLimits st \<and>
     (case inference_answer out ci g of
        None \<Rightarrow> source res = fallback \<and> profile res = None \<and> error res \<noteq> None
      | Some p0 \<Rightarrow> res = \<lparr>profile = Some (p0\<lparr>aiGenerated := True\<rparr>), source = ai,
                           error = None\<rparr>)"
proof (cases "inference_answer out ci g")
  case None
  from ai_request_failure [OF None, of key st] show ?thesis
  proof
    assume "\<exists>err. ai_request out ci g key st = (Inl err, st)"
    then show ?thesis using None by (auto simp: try_catch_st_def fallback_result_def)
  next
    assume "\<exists>message. ai_request out ci g key st = (Inr (fallback_result message), st)"
    then show ?thesis using None by (auto simp: try_catch_st_def fallback_result_def)
  qed
next
  case (Some p0)
  show ?thesis
    using Some cacheProfile_keeps [of out key "p0\<lparr>aiGenerated := True\<rparr>" st]
    by (simp add: ai_request_success [OF Some] try_catch_st_def)
qed

lemma generateAIProfile_unfold:
  "generateAIProfile out ci g st =
     (case fst (getCachedProfile out st (cacheKey_of ci)) of
        Inl err \<Rightarrow> (Inl err, after_get out st)
      | Inr (Some cached) \<Rightarrow>
          (Inr \<lparr>profile = Some cached, source = cache, error = None\<rparr>, after_get out st)
      | Inr None \<Rightarrow>
          if \<not> truthy (GROK_API_KEY st)
          then (Inr (fallback_result ''AI not configured''), after_get out st)
          else if \<not> fst (checkRateLimit (userId_of ci) (date_now out) (userRateLimits st))
          then (Inr (fallback_result ''Rate limited''),
                (after_get out st)\<lparr>userRateLimits :=
                   snd (checkRateLimit (userId_of ci) (date_now out) (userRateLimits st))\<rparr>)
          else try_catch_st
                 (ai_request out ci g (cacheKey_of ci)
                    ((after_get out st)\<lparr>userRateLimits :=
                       snd (checkRateLimit (userId_of ci) (date_now out) (userRateLimits st))\<rparr>))
                 (\<lambda>err s. (Inr (fallback_result (String_of out err)), s)))"
proof -
  obtain r st0 where c: "getCachedProfile out st (cacheKey_of ci) = (r, st0)"
    by (cases "getCachedProfile out st (cacheKey_of ci)")
  have st0: "st0 = after_get out st"
    using getCachedProfile_state [of out st "cacheKey_of ci"] c by simp
  have c': "getCachedProfile out st
              (getCacheKey (or_default (fingerprintId ci) ''unknown'')
                 (or_default (crossBrowserId ci) ''unknown'')) = (r, after_get out st)"
    using c st0 by (simp add: cacheKey_of_def)
  note c = c [unfolded cacheKey_of_def]
  show ?thesis
    using c' c st0
    by (simp add: generateAIProfile_def Let_def userId_of_def cacheKey_of_def
        split: sum.splits option.splits)
qed

lemma generateAIProfile_result:
  "\<exists>res. fst (generateAIProfile out ci g st) = Inr res \<and>
     (case fst (getCachedProfile out st (cacheKey_of ci)) of
        Inr (Some p) \<Rightarrow>
          res = \<lparr>profile = Some p, source = cache, error = None\<rparr> \<and>
          snd (generateAIProfile out ci g st) = after_get out st
      | _ \<Rightarrow>
          if \<not> truthy (GROK_API_KEY st)
          then res = fallback_result ''AI not configured'' \<and>
               snd (generateAIProfile out ci g st) = after_get out st
          else userRateLimits (snd (generateAIProfile out ci g st)) =
                 snd (checkRateLimit (userId_of ci) (date_now out) (userRateLimits st)) \<and>
               (if \<not> fst (checkRateLimit (userId_of ci) (date_now out) (userRateLimits st))
                then res = fallback_result ''Rate limited''
                else case inference_answer out ci g of
                       None \<Rightarrow> source res = fallback \<and> profile res = None \<and> error res \<noteq> None
                     | Some p0 \<Rightarrow> res = \<lparr>profile = Some (p0\<lparr>aiGenerated := True\<rparr>),
                                          source = ai, error = None\<rparr>))"
proof -
  let ?st1 = "(after_get out st)\<lparr>userRateLimits :=
                snd (checkRateLimit (userId_of ci) (date_now out) (userRateLimits st))\<rparr>"
  obtain r where c: "fst (getCachedProfile out st (cacheKey_of ci)) = Inr r"
    using getCachedProfile_total by blast
  show ?thesis
  proof (cases r)
    case (Some p)
    then show ?thesis by (simp add: generateAIProfile_unfold c)
  next
    case None
    show ?thesis
    proof (cases "truthy (GROK_API_KEY st)")
      case False
      then show ?thesis by (simp add: generateAIProfile_unfold c None)
    next
      case key: True
      show ?thesis
      proof (cases "fst (checkRateLimit (userId_of ci) (date_now out) (userRateLimits st))")
        case False
        then show ?thesis by (simp add: generateAIProfile_unfold c None key)
      next
        case True
        from try_request_result [of out ci g "cacheKey_of ci" ?st1]
        obtain res st' where
          t: "try_catch_st (ai_request out ci g (cacheKey_of ci) ?st1)
                (\<lambda>err s. (Inr (fallback_result (String_of out err)), s)) = (Inr res, st')"
          and l: "userRateLimits st' = userRateLimits ?st1"
          and i: "case inference_answer out ci g of
                    None \<Rightarrow> source res = fallback \<and> profile res = None \<and> error res \<noteq> None
                  | Some p0 \<Rightarrow> res = \<lparr>profile = Some (p0\<lparr>aiGenerated := True\<rparr>),
                                       source = ai, error = None\<rparr>"
          by blast
        have "generateAIProfile out ci g st = (Inr res, st')"
          by (simp add: generateAIProfile_unfold c None key True t)
        then show ?thesis using l i by (simp add: c None key True)
      qed
    qed
  qed
qed

lemma checkRateLimit_new_window:
  "(case limits u of None \<Rightarrow> True | Some l \<Rightarrow> resetTime l < t) \<Longrightarrow>
   checkRateLimit u t limits = (True, limits(u \<mapsto> \<lparr>count = 1, resetTime = t + RATE_LIMIT_WINDOW\<rparr>))"
  by (auto simp: checkRateLimit_def split: option.splits)

lemma checkRateLimit_within:
  "limits u = Some l \<Longrightarrow> t \<le> resetTime l \<Longrightarrow>
   checkRateLimit u t limits =
     (if RATE_LIMIT_MAX \<le> count l then (False, limits)
      else (True, limits(u \<mapsto> l\<lparr>count := count l + 1\<rparr>)))"
  by (simp add: checkRateLimit_def)

lemma checkRateLimit_sweep:
  "ts \<le> t \<Longrightarrow> fst (checkRateLimit u t (sweep ts limits)) = fst (checkRateLimit u t limits)"
  by (auto simp: checkRateLimit_def sweep_def split: option.splits)

lemma cacheKey_facts_1: "cacheKey_of facts_1 = ''yourinfo:profile:fp1:cb1''"
  by (simp add: cacheKey_of_def getCacheKey_def or_default_def truthy_def facts_1_def)

lemma userId_facts_1: "userId_of facts_1 = ''fp1:cb1''"
  by (simp add: userId_of_def or_default_def truthy_def facts_1_def)

lemmas sample_defs =
  generateAIProfile_def getCachedProfile_def try_catch_def try_catch_st_def getRedis_def
  REDIS_BACKOFF_MS_def redis_get_def truthy_def
  checkRateLimit_def ai_request_def cacheProfile_def redis_setEx_def content_of_def member_def
  opt_first_def opt_member_def truthy_json_def parseAIResponse_def validated_def
  or_default_def getCacheKey_def fallback_result_def RATE_LIMIT_WINDOW_def RATE_LIMIT_MAX_def
  outside_ok_def response_ok_def answer_json_def profile_1_def profiler_0_def profiler_1_def
  facts_1_def Let_def

lemma sample_first:
  "generateAIProfile outside_ok facts_1 None profiler_0
     = (Inr \<lparr>profile = Some profile_1, source = ai, error = None\<rparr>, profiler_1)"
  by (simp add: sample_defs)

lemma sample_hit:
  "generateAIProfile (outside_ok\<lparr>date_now := t\<rparr>) facts_1 None profiler_1
     = (Inr \<lparr>profile = Some profile_1, source = cache, error = None\<rparr>, profiler_1)"
  by (simp add: sample_defs)

subsection \<open>Lookup order\<close>

text \<open>
  C2, as the code has it. When the cache can be read (\<open>getRedis\<close> hands out a client and
  the read does not reject) and holds, for the identity's key, a text that is not empty
  and parses to a profile, that profile is returned with the source tag of the cache,
  written \<open>'cache'\<close> in the code. When the lookup gives nothing and no API key is
  configured, the result is a null profile with source \<open>fallback\<close>. When the lookup gives
  nothing, the key is configured and the identity's window is exhausted (the clock has not
  passed \<open>resetTime\<close> and the count has reached the maximum), the result is a null
  profile with source \<open>fallback\<close>. In all three cases the state of the module is the one
  that \<open>getRedis\<close> left at the lookup.
\<close>

theorem generateAIProfile_lookup_order:
  "(client_at_get out st \<and> \<not> get_rejects out \<and>
    cache_store st (cacheKey_of ci) = Some (text, ttl) \<and> text \<noteq> [] \<and>
    JSON_parse_cached out text = Inr (Some p) \<longrightarrow>
      generateAIProfile out ci g st
        = (Inr \<lparr>profile = Some p, source = cache, error = None\<rparr>, after_get out st)) \<and>
   (fst (getCachedProfile out st (cacheKey_of ci)) = Inr None \<and>
    \<not> truthy (GROK_API_KEY st) \<longrightarrow>
      generateAIProfile out ci g st
        = (Inr \<lparr>profile = None, source = fallback, error = Some ''AI not configured''\<rparr>,
           after_get out st)) \<and>
   (fst (getCachedProfile out st (cacheKey_of ci)) = Inr None \<and> truthy (GROK_API_KEY st) \<and>
    userRateLimits st (userId_of ci) = Some l \<and> date_now out \<le> resetTime l \<and>
    RATE_LIMIT_MAX \<le> count l \<longrightarrow>
      generateAIProfile out ci g st
        = (Inr \<lparr>profile = None, source = fallback, error = Some ''Rate limited''\<rparr>,
           after_get out st))"
proof (intro conjI impI)
  assume "client_at_get out st \<and> \<not> get_rejects out \<and>
    cache_store st (cacheKey_of ci) = Some (text, ttl) \<and> text \<noteq> [] \<and>
    JSON_parse_cached out text = Inr (Some p)"
  then have "fst (getCachedProfile out st (cacheKey_of ci)) = Inr (Some p)"
    using getCachedProfile_hit by blast
  then show "generateAIProfile out ci g st
        = (Inr \<lparr>profile = Some p, source = cache, error = None\<rparr>, after_get out st)"
    by (simp add: generateAIProfile_unfold)
next
  assume "fst (getCachedProfile out st (cacheKey_of ci)) = Inr None \<and>
    \<not> truthy (GROK_API_KEY st)"
  then show "generateAIProfile out ci g st
        = (Inr \<lparr>profile = None, source = fallback, error = Some ''AI not configured''\<rparr>,
           after_get out st)"
    by (simp add: generateAIProfile_unfold fallback_result_def)
next
  assume a: "fst (getCachedProfile out st (cacheKey_of ci)) = Inr None \<and>
    truthy (GROK_API_KEY st) \<and>
    userRateLimits st (userId_of ci) = Some l \<and> date_now out \<le> resetTime l \<and>
    RATE_LIMIT_MAX \<le> count l"
  then have "checkRateLimit (userId_of ci) (date_now out) (userRateLimits st)
               = (False, userRateLimits st)"
    by (simp add: checkRateLimit_def)
  with a show "generateAIProfile out ci g st
        = (Inr \<lparr>profile = None, source = fallback, error = Some ''Rate limited''\<rparr>,
           after_get out st)"
    by (simp add: generateAIProfile_unfold fallback_result_def after_get_limits)
qed

theorem generateAIProfile_lookup_order_witness:
  "generateAIProfile outside_ok facts_1 None profiler_1
     = (Inr \<lparr>profile = Some profile_1, source = cache, error = None\<rparr>, profiler_1) \<and>
   generateAIProfile outside_ok facts_1 None (profiler_0\<lparr>GROK_API_KEY := None\<rparr>)
     = (Inr \<lparr>profile = None, source = fallback, error = Some ''AI not configured''\<rparr>,
        profiler_0\<lparr>GROK_API_KEY := None\<rparr>) \<and>
   generateAIProfile outside_ok facts_1 None profiler_full
     = (Inr \<lparr>profile = None, source = fallback, error = Some ''Rate limited''\<rparr>, profiler_full)"
proof -
  have open_client: "\<And>st. redis_isOpen st \<Longrightarrow> redisLastError st = 0 \<Longrightarrow>
      client_at_get outside_ok st \<and> after_get outside_ok st = st"
    by (simp add: client_at_get_def after_get_def getRedis_def)
  have c1: "client_at_get outside_ok profiler_1 \<and> after_get outside_ok profiler_1 = profiler_1"
    by (rule open_client) (simp_all add: profiler_1_def)
  have c0: "client_at_get outside_ok (profiler_0\<lparr>GROK_API_KEY := None\<rparr>) \<and>
            after_get outside_ok (profiler_0\<lparr>GROK_API_KEY := None\<rparr>)
              = profiler_0\<lparr>GROK_API_KEY := None\<rparr>"
    by (rule open_client) (simp_all add: profiler_0_def)
  have cf: "client_at_get outside_ok profiler_full \<and>
            after_get outside_ok profiler_full = profiler_full"
    by (rule open_client) (simp_all add: profiler_full_def)
  have hit: "client_at_get outside_ok profiler_1 \<and> \<not> get_rejects outside_ok \<and>
    cache_store profiler_1 (cacheKey_of facts_1) = Some (''profile'', CACHE_TTL) \<and>
    ''profile'' \<noteq> [] \<and> JSON_parse_cached outside_ok ''profile'' = Inr (Some profile_1)"
    using c1 by (simp add: cacheKey_facts_1 outside_ok_def profiler_1_def)
  have nokey: "fst (getCachedProfile outside_ok (profiler_0\<lparr>GROK_API_KEY := None\<rparr>)
                 (cacheKey_of facts_1)) = Inr None \<and>
               \<not> truthy (GROK_API_KEY (profiler_0\<lparr>GROK_API_KEY := None\<rparr>))"
    using c0 by (simp add: getCachedProfile_eq redis_get_def truthy_def profiler_0_def
        outside_ok_def)
  have full: "fst (getCachedProfile outside_ok profiler_full (cacheKey_of facts_1)) = Inr None \<and>
      truthy (GROK_API_KEY profiler_full) \<and>
      userRateLimits profiler_full (userId_of facts_1) = Some \<lparr>count = 2, resetTime = 61000\<rparr> \<and>
      date_now outside_ok \<le> resetTime \<lparr>count = 2, resetTime = 61000\<rparr> \<and>
      RATE_LIMIT_MAX \<le> count \<lparr>count = 2, resetTime = 61000\<rparr>"
    using cf by (simp add: getCachedProfile_eq redis_get_def truthy_def outside_ok_def
        profiler_full_def userId_facts_1 RATE_LIMIT_MAX_def)
  have 1: "generateAIProfile outside_ok facts_1 None profiler_1
     = (Inr \<lparr>profile = Some profile_1, source = cache, error = None\<rparr>,
        after_get outside_ok profiler_1)"
    using hit generateAIProfile_lookup_order [of outside_ok profiler_1 facts_1 "''profile''"
        CACHE_TTL profile_1 None] by blast
  have 2: "generateAIProfile outside_ok facts_1 None (profiler_0\<lparr>GROK_API_KEY := None\<rparr>)
     = (Inr \<lparr>profile = None, source = fallback, error = Some ''AI not configured''\<rparr>,
        after_get outside_ok (profiler_0\<lparr>GROK_API_KEY := None\<rparr>))"
    using nokey generateAIProfile_lookup_order [of outside_ok "profiler_0\<lparr>GROK_API_KEY := None\<rparr>"
        facts_1] by blast
  have 3: "generateAIProfile outside_ok facts_1 None profiler_full
     = (Inr \<lparr>profile = None, source = fallback, error = Some ''Rate limited''\<rparr>,
        after_get outside_ok profiler_full)"
    using full generateAIProfile_lookup_order [of outside_ok profiler_full facts_1 _ _ _ None
        "\<lparr>count = 2, resetTime = 61000\<rparr>"] by blast
  show ?thesis using 1 2 3 c1 c0 cf by simp
qed

text \<open>
  C2, as stated, fails: the cache holds an entry for the identity, but the store had an
  error two seconds ago and \<open>getRedis\<close>, in its back-off, hands out no client; the lookup
  counts as a miss and, no API key being configured, the call returns \<open>fallback\<close>.
\<close>

theorem cache_unreachable_counterexample:
  "cache_store profiler_cached (cacheKey_of facts_1) = Some (''profile'', CACHE_TTL) \<and>
   JSON_parse_cached (outside_ok\<lparr>now_get := 1000000\<rparr>) ''profile'' = Inr (Some profile_1) \<and>
   redisLastError profiler_cached = 998000 \<and>
   generateAIProfile (outside_ok\<lparr>now_get := 1000000\<rparr>) facts_1 None profiler_cached
     = (Inr \<lparr>profile = None, source = fallback, error = Some ''AI not configured''\<rparr>,
        profiler_cached)"
  by (simp add: sample_defs profiler_cached_def cacheKey_of_def)

subsection \<open>The rate limiter\<close>

text \<open>
  C5, as the code has it. The limiter counts the requests that reach it, that is those of
  a configured service that the cache did not answer. Of these, for one identity: the
  request that opens a window (no entry, or the clock past \<open>resetTime\<close>) and one more
  within the window are admitted, a third one within the window is refused and leaves the
  limiter as it is, and a request after the window's reset time is admitted with count 1
  in a new window. A request answered from the cache leaves the limiter alone; a refused
  request returns \<open>fallback\<close>; an admitted request returns \<open>ai\<close> when the inference
  service answers with a profile and \<open>fallback\<close> when it does not.
\<close>

theorem rate_limit_window:
  "((case limits u of None \<Rightarrow> True | Some l \<Rightarrow> resetTime l < ta) \<and>
    tb \<le> ta + RATE_LIMIT_WINDOW \<and> tc \<le> ta + RATE_LIMIT_WINDOW \<and> ta + RATE_LIMIT_WINDOW < td \<longrightarrow>
      fst (checkRateLimit u ta limits) \<and>
      fst (checkRateLimit u tb (snd (checkRateLimit u ta limits))) \<and>
      checkRateLimit u tc (snd (checkRateLimit u tb (snd (checkRateLimit u ta limits))))
        = (False, snd (checkRateLimit u tb (snd (checkRateLimit u ta limits)))) \<and>
      checkRateLimit u td (snd (checkRateLimit u tb (snd (checkRateLimit u ta limits))))
        = (True, (snd (checkRateLimit u tb (snd (checkRateLimit u ta limits))))
                   (u \<mapsto> \<lparr>count = 1, resetTime = td + RATE_LIMIT_WINDOW\<rparr>))) \<and>
   (\<exists>res. fst (generateAIProfile out ci g st) = Inr res \<and>
      (case fst (getCachedProfile out st (cacheKey_of ci)) of
         Inr (Some p) \<Rightarrow>
           source res = cache \<and>
           userRateLimits (snd (generateAIProfile out ci g st)) = userRateLimits st
       | _ \<Rightarrow>
           if \<not> truthy (GROK_API_KEY st)
           then source res = fallback \<and>
                userRateLimits (snd (generateAIProfile out ci g st)) = userRateLimits st
           else userRateLimits (snd (generateAIProfile out ci g st)) =
                  snd (checkRateLimit (userId_of ci) (date_now out) (userRateLimits st)) \<and>
                (if \<not> fst (checkRateLimit (userId_of ci) (date_now out) (userRateLimits st))
                 then res = \<lparr>profile = None, source = fallback, error = Some ''Rate limited''\<rparr>
                 else source res = (case inference_answer out ci g of
                                      None \<Rightarrow> fallback | Some p0 \<Rightarrow> ai))))"
proof (intro conjI impI)
  assume a: "(case limits u of None \<Rightarrow> True | Some l \<Rightarrow> resetTime l < ta) \<and>
    tb \<le> ta + RATE_LIMIT_WINDOW \<and> tc \<le> ta + RATE_LIMIT_WINDOW \<and> ta + RATE_LIMIT_WINDOW < td"
  let ?w1 = "\<lparr>count = 1, resetTime = ta + RATE_LIMIT_WINDOW\<rparr>"
  let ?w2 = "\<lparr>count = 2, resetTime = ta + RATE_LIMIT_WINDOW\<rparr>"
  have r1: "checkRateLimit u ta limits = (True, limits(u \<mapsto> ?w1))"
    using a checkRateLimit_new_window by blast
  have r2: "checkRateLimit u tb (limits(u \<mapsto> ?w1)) = (True, limits(u \<mapsto> ?w2))"
    using a by (simp add: checkRateLimit_within [of _ _ ?w1] RATE_LIMIT_MAX_def numeral_2_eq_2)
  have r3: "checkRateLimit u tc (limits(u \<mapsto> ?w2)) = (False, limits(u \<mapsto> ?w2))"
    using a by (simp add: checkRateLimit_within [of _ _ ?w2] RATE_LIMIT_MAX_def)
  have r4: "checkRateLimit u td (limits(u \<mapsto> ?w2))
              = (True, (limits(u \<mapsto> ?w2))(u \<mapsto> \<lparr>count = 1, resetTime = td + RATE_LIMIT_WINDOW\<rparr>))"
    using a by (intro checkRateLimit_new_window) simp
  show "fst (checkRateLimit u ta limits)" by (simp only: r1 fst_conv)
  show "fst (checkRateLimit u tb (snd (checkRateLimit u ta limits)))"
    by (simp only: r1 r2 fst_conv snd_conv)
  show "checkRateLimit u tc (snd (checkRateLimit u tb (snd (checkRateLimit u ta limits))))
        = (False, snd (checkRateLimit u tb (snd (checkRateLimit u ta limits))))"
    by (simp only: r1 r2 r3 fst_conv snd_conv)
  show "checkRateLimit u td (snd (checkRateLimit u tb (snd (checkRateLimit u ta limits))))
        = (True, (snd (checkRateLimit u tb (snd (checkRateLimit u ta limits))))
                   (u \<mapsto> \<lparr>count = 1, resetTime = td + RATE_LIMIT_WINDOW\<rparr>))"
    by (simp only: r1 r2 r4 fst_conv snd_conv)
next
  from generateAIProfile_result [of out ci g st]
  obtain res where r: "fst (generateAIProfile out ci g st) = Inr res"
    and c: "case fst (getCachedProfile out st (cacheKey_of ci)) of
        Inr (Some p) \<Rightarrow>
          res = \<lparr>profile = Some p, source = cache, error = None\<rparr> \<and>
          snd (generateAIProfile out ci g st) = after_get out st
      | _ \<Rightarrow>
          if \<not> truthy (GROK_API_KEY st)
          then res = fallback_result ''AI not configured'' \<and>
               snd (generateAIProfile out ci g st) = after_get out st
          else userRateLimits (snd (generateAIProfile out ci g st)) =
                 snd (checkRateLimit (userId_of ci) (date_now out) (userRateLimits st)) \<and>
               (if \<not> fst (checkRateLimit (userId_of ci) (date_now out) (userRateLimits st))
                then res = fallback_result ''Rate limited''
                else case inference_answer out ci g of
                       None \<Rightarrow> source res = fallback \<and> profile res = None \<and> error res \<noteq> None
                     | Some p0 \<Rightarrow> res = \<lparr>profile = Some (p0\<lparr>aiGenerated := True\<rparr>),
                                          source = ai, error = None\<rparr>)"
    by blast
  have K: "case fst (getCachedProfile out st (cacheKey_of ci)) of
         Inr (Some p) \<Rightarrow>
           source res = cache \<and>
           userRateLimits (snd (generateAIProfile out ci g st)) = userRateLimits st
       | _ \<Rightarrow>
           if \<not> truthy (GROK_API_KEY st)
           then source res = fallback \<and>
                userRateLimits (snd (generateAIProfile out ci g st)) = userRateLimits st
           else userRateLimits (snd (generateAIProfile out ci g st)) =
                  snd (checkRateLimit (userId_of ci) (date_now out) (userRateLimits st)) \<and>
                (if \<not> fst (checkRateLimit (userId_of ci) (date_now out) (userRateLimits st))
                 then res = \<lparr>profile = None, source = fallback, error = Some ''Rate limited''\<rparr>
                 else source res = (case inference_answer out ci g of
                                      None \<Rightarrow> fallback | Some p0 \<Rightarrow> ai))"
    using c by (auto simp: fallback_result_def split: sum.splits option.splits if_splits)
  show "\<exists>res. fst (generateAIProfile out ci g st) = Inr res \<and>
      (case fst (getCachedProfile out st (cacheKey_of ci)) of
         Inr (Some p) \<Rightarrow>
           source res = cache \<and>
           userRateLimits (snd (generateAIProfile out ci g st)) = userRateLimits st
       | _ \<Rightarrow>
           if \<not> truthy (GROK_API_KEY st)
           then source res = fallback \<and>
                userRateLimits (snd (generateAIProfile out ci g st)) = userRateLimits st
           else userRateLimits (snd (generateAIProfile out ci g st)) =
                  snd (checkRateLimit (userId_of ci) (date_now out) (userRateLimits st)) \<and>
                (if \<not> fst (checkRateLimit (userId_of ci) (date_now out) (userRateLimits st))
                 then res = \<lparr>profile = None, source = fallback, error = Some ''Rate limited''\<rparr>
                 else source res = (case inference_answer out ci g of
                                      None \<Rightarrow> fallback | Some p0 \<Rightarrow> ai)))"
    by (rule exI [of _ res], rule conjI [OF r K])
qed

theorem rate_limit_window_witness:
  "fst (checkRateLimit ''fp1:cb1'' 1000 Map.empty) \<and>
   fst (checkRateLimit ''fp1:cb1'' 2000 (snd (checkRateLimit ''fp1:cb1'' 1000 Map.empty))) \<and>
   \<not> fst (checkRateLimit ''fp1:cb1'' 3000
      (snd (checkRateLimit ''fp1:cb1'' 2000 (snd (checkRateLimit ''fp1:cb1'' 1000 Map.empty))))) \<and>
   fst (checkRateLimit ''fp1:cb1'' 70000
      (snd (checkRateLimit ''fp1:cb1'' 2000 (snd (checkRateLimit ''fp1:cb1'' 1000 Map.empty))))) \<and>
   requests [(outside_down, facts_1), (outside_down\<lparr>date_now := 2000\<rparr>, facts_1),
             (outside_down\<lparr>date_now := 3000\<rparr>, facts_1)] profiler_0
   = [Inr \<lparr>profile = None, source = fallback, error = Some ''Error''\<rparr>,
      Inr \<lparr>profile = None, source = fallback, error = Some ''Error''\<rparr>,
      Inr \<lparr>profile = None, source = fallback, error = Some ''Rate limited''\<rparr>]"
proof -
  have prem: "(case (Map.empty :: string \<rightharpoonup> RateLimit) ''fp1:cb1'' of
                 None \<Rightarrow> True | Some l \<Rightarrow> resetTime l < 1000) \<and>
      (2000::int) \<le> 1000 + RATE_LIMIT_WINDOW \<and> 3000 \<le> 1000 + RATE_LIMIT_WINDOW \<and>
      1000 + RATE_LIMIT_WINDOW < 70000"
    by (simp add: RATE_LIMIT_WINDOW_def)
  have run: "requests [(outside_down, facts_1), (outside_down\<lparr>date_now := 2000\<rparr>, facts_1),
             (outside_down\<lparr>date_now := 3000\<rparr>, facts_1)] profiler_0
   = [Inr \<lparr>profile = None, source = fallback, error = Some ''Error''\<rparr>,
      Inr \<lparr>profile = None, source = fallback, error = Some ''Error''\<rparr>,
      Inr \<lparr>profile = None, source = fallback, error = Some ''Rate limited''\<rparr>]"
    by (simp add: sample_defs outside_down_def)
  have lim: "fst (checkRateLimit ''fp1:cb1'' 1000 Map.empty) \<and>
   fst (checkRateLimit ''fp1:cb1'' 2000 (snd (checkRateLimit ''fp1:cb1'' 1000 Map.empty))) \<and>
   checkRateLimit ''fp1:cb1'' 3000
      (snd (checkRateLimit ''fp1:cb1'' 2000 (snd (checkRateLimit ''fp1:cb1'' 1000 Map.empty))))
     = (False, snd (checkRateLimit ''fp1:cb1'' 2000 (snd (checkRateLimit ''fp1:cb1'' 1000 Map.empty)))) \<and>
   checkRateLimit ''fp1:cb1'' 70000
      (snd (checkRateLimit ''fp1:cb1'' 2000 (snd (checkRateLimit ''fp1:cb1'' 1000 Map.empty))))
     = (True, (snd (checkRateLimit ''fp1:cb1'' 2000 (snd (checkRateLimit ''fp1:cb1'' 1000 Map.empty))))
          (''fp1:cb1'' \<mapsto> \<lparr>count = 1, resetTime = 70000 + RATE_LIMIT_WINDOW\<rparr>))"
    using prem rate_limit_window [where limits = Map.empty and u = "''fp1:cb1''" and ta = 1000
        and tb = 2000 and tc = 3000 and td = 70000] by blast
  then show ?thesis using run by simp
qed

text \<open>
  C5, as stated, fails: with the cache and the inference service at work, three requests
  of one identity within a window give one inferred profile and two cached ones, and no
  fallback at all; the second and the third request never reach the limiter.
\<close>

theorem three_requests_counterexample:
  "requests [(outside_ok, facts_1), (outside_ok\<lparr>date_now := 2000\<rparr>, facts_1),
             (outside_ok\<lparr>date_now := 3000\<rparr>, facts_1)] profiler_0
   = [Inr \<lparr>profile = Some profile_1, source = ai, error = None\<rparr>,
      Inr \<lparr>profile = Some profile_1, source = cache, error = None\<rparr>,
      Inr \<lparr>profile = Some profile_1, source = cache, error = None\<rparr>]"
  using sample_hit [of 2000] sample_hit [of 3000] by (simp add: sample_first)

subsection \<open>No exception reaches the caller\<close>




end
